theory Spec2Isabelle
  imports Complex_Main "HOL-Library.Sublist"
begin

section \<open>Python values and exceptions\<close>

text \<open>
  The values that travel through the query layer and the tool handlers: \<open>None\<close>,
  integers, floats (read as exact numbers; the code only compares them), strings,
  lists and tuples.  A raised exception is the \<open>Inl\<close> branch of a sum.
\<close>

datatype pyval =
    PyNone
  | PyInt int
  | PyFloat real
  | PyStr string
  | PyList "pyval list"
  | PyTuple "pyval list"

datatype py_error =
    ValueError string
  | KeyError string
  | TypeError
  | PolarsError
  | SqliteError string

section \<open>query\_executor.py: build\_where\_clause\<close>

text \<open>
  \<open>sep.join(xs)\<close> of Python.
\<close>

fun py_join :: "string \<Rightarrow> string list \<Rightarrow> string" where
  "py_join sep [] = []"
| "py_join sep [x] = x"
| "py_join sep (x # y # ys) = x @ sep @ py_join sep (y # ys)"

text \<open>
  \<open>s.isalnum()\<close>: every character is alphanumeric and there is at least one character.
  Which characters Python counts as alphanumeric is a table of the interpreter, so the
  classification of a single character is the parameter \<open>alnum\<close>.
\<close>

definition str_isalnum :: "(char \<Rightarrow> bool) \<Rightarrow> string \<Rightarrow> bool" where
  "str_isalnum alnum s = (s \<noteq> [] \<and> list_all alnum s)"

text \<open>\<open>column.replace('_', '')\<close>.\<close>

definition replace_underscore :: "string \<Rightarrow> string" where
  "replace_underscore column = filter (\<lambda>c. c \<noteq> CHR ''_'') column"

text \<open>\<open>','.join('?' * len(value))\<close>: the string of question marks, joined character-wise.\<close>

definition placeholders :: "pyval list \<Rightarrow> string" where
  "placeholders value = py_join '','' (map (\<lambda>c. [c]) (replicate (length value) (CHR ''?'')))"

text \<open>
  The loop over \<open>conditions.items()\<close>, with the two accumulators \<open>where_parts\<close> and
  \<open>params\<close>.  A dict iterates in insertion order, so the conditions are an association
  list.  The first column that fails the check raises \<open>ValueError\<close>.
\<close>

fun where_loop ::
  "(char \<Rightarrow> bool) \<Rightarrow> (string \<times> pyval) list \<Rightarrow> string list \<Rightarrow> pyval list
     \<Rightarrow> py_error + (string list \<times> pyval list)" where
  "where_loop alnum [] where_parts params = Inr (where_parts, params)"
| "where_loop alnum ((column, value) # rest) where_parts params =
     (if \<not> str_isalnum alnum (replace_underscore column)
      then Inl (ValueError (''Invalid column name: '' @ column))
      else (case value of
              PyNone \<Rightarrow> where_loop alnum rest (where_parts @ [column @ '' IS NULL'']) params
            | PyList xs \<Rightarrow>
                where_loop alnum rest
                  (where_parts @ [column @ '' IN ('' @ placeholders xs @ '')'']) (params @ xs)
            | PyTuple xs \<Rightarrow>
                where_loop alnum rest
                  (where_parts @ [column @ '' IN ('' @ placeholders xs @ '')'']) (params @ xs)
            | _ \<Rightarrow> where_loop alnum rest (where_parts @ [column @ '' = ?'']) (params @ [value])))"

definition build_where_clause ::
  "(char \<Rightarrow> bool) \<Rightarrow> (string \<times> pyval) list \<Rightarrow> py_error + (string \<times> pyval list)" where
  "build_where_clause alnum conditions =
     (if conditions = [] then Inr ('''', [])
      else (case where_loop alnum conditions [] [] of
              Inl e \<Rightarrow> Inl e
            | Inr (where_parts, params) \<Rightarrow>
                Inr (''WHERE '' @ py_join '' AND '' where_parts, params)))"

text \<open>
  The clause as the specification words it: one condition per entry, \<open>IS NULL\<close> for a
  null, \<open>IN\<close> with one placeholder per element for a list or tuple, \<open>= ?\<close> for a scalar;
  and the parameters each entry contributes.
\<close>

fun qmarks :: "nat \<Rightarrow> string" where
  "qmarks 0 = []"
| "qmarks (Suc 0) = ''?''"
| "qmarks (Suc (Suc n)) = ''?,'' @ qmarks (Suc n)"

fun spec_condition :: "string \<times> pyval \<Rightarrow> string" where
  "spec_condition (column, PyNone) = column @ '' IS NULL''"
| "spec_condition (column, PyList xs) = column @ '' IN ('' @ qmarks (length xs) @ '')''"
| "spec_condition (column, PyTuple xs) = column @ '' IN ('' @ qmarks (length xs) @ '')''"
| "spec_condition (column, v) = column @ '' = ?''"

fun spec_parameters :: "string \<times> pyval \<Rightarrow> pyval list" where
  "spec_parameters (column, PyNone) = []"
| "spec_parameters (column, PyList xs) = xs"
| "spec_parameters (column, PyTuple xs) = xs"
| "spec_parameters (column, v) = [v]"

text \<open>ASCII letters and digits, which every Python counts as alphanumeric.\<close>

definition ascii_alnum :: "char \<Rightarrow> bool" where
  "ascii_alnum c =
     (let n = of_char c :: nat
      in (48 \<le> n \<and> n \<le> 57) \<or> (65 \<le> n \<and> n \<le> 90) \<or> (97 \<le> n \<and> n \<le> 122))"

section \<open>Data frames\<close>

text \<open>
  A Polars data frame is an ordered collection of named columns of one height; the names
  are pairwise different.  A column is numeric (the dtypes \<open>Int32\<close>, \<open>Int64\<close>, \<open>Float32\<close>,
  \<open>Float64\<close>; a number is read as an exact real) or text (\<open>Utf8\<close>).  A cell is \<open>None\<close> when it is null.  An expression
  that Polars refuses for the column's dtype is the error \<open>PolarsError\<close>.  The logging
  and the \<open>cleaning_stats\<close> counters of the classes do not reach the returned frame and
  are left out.
\<close>

datatype column = NumCol "real option list" | StrCol "string option list"

type_synonym dataframe = "(string \<times> column) list"

definition columns :: "dataframe \<Rightarrow> string list" where
  "columns df = map fst df"

text \<open>\<open>df.with_columns(expr.alias(name))\<close> for an expression over the column \<open>name\<close> itself.\<close>

definition with_column :: "string \<Rightarrow> (column \<Rightarrow> column) \<Rightarrow> dataframe \<Rightarrow> dataframe" where
  "with_column name expr df = map (\<lambda>(n, c). if n = name then (n, expr c) else (n, c)) df"

text \<open>\<open>sub in s\<close> for Python strings.\<close>

definition str_contains :: "string \<Rightarrow> string \<Rightarrow> bool" where
  "str_contains sub s = sublist sub s"

section \<open>cleaners.py: DataCleaner\<close>

subsection \<open>clean\_country\_names\<close>

definition country_mappings :: "(string \<times> string) list" where
  "country_mappings =
     [(''USA'', ''United States''),
      (''US'', ''United States''),
      (''United States of America'', ''United States''),
      (''UK'', ''United Kingdom''),
      (''Britain'', ''United Kingdom''),
      (''DRC'', ''Democratic Republic of the Congo''),
      (''Congo, Dem. Rep.'', ''Democratic Republic of the Congo''),
      (''CAR'', ''Central African Republic''),
      (''Burma'', ''Myanmar''),
      (''Holland'', ''Netherlands''),
      (''Cote d'Ivoire'', ''C'' @ [CHR 0xC3, CHR 0xB4] @ ''te d'Ivoire''),
      (''Ivory Coast'', ''C'' @ [CHR 0xC3, CHR 0xB4] @ ''te d'Ivoire''),
      (''French Guyana'', ''French Guiana''),
      (''Virgin Islands'', ''U.S. Virgin Islands'')]"

text \<open>
  \<open>pl.when(pl.col("country") == old_name).then(pl.lit(new_name)).otherwise(pl.col("country"))\<close>
  on one cell: the comparison of a null is null, and \<open>when\<close> then takes the \<open>otherwise\<close>
  branch.
\<close>

fun when_equals_then :: "string \<Rightarrow> string \<Rightarrow> string option \<Rightarrow> string option" where
  "when_equals_then old_name new_name None = None"
| "when_equals_then old_name new_name (Some s) = (if s = old_name then Some new_name else Some s)"

text \<open>
  \<open>str.strip_chars()\<close>: leading and trailing white space removed.  The white space
  known here is the ASCII one (space, tab, line feed, vertical tab, form feed, carriage
  return); Polars also strips the white space beyond ASCII.
\<close>

definition is_space :: "char \<Rightarrow> bool" where
  "is_space c = (let n = of_char c :: nat in n = 32 \<or> (9 \<le> n \<and> n \<le> 13))"

definition strip_chars :: "string \<Rightarrow> string" where
  "strip_chars s = rev (dropWhile is_space (rev (dropWhile is_space s)))"

fun map_text :: "(string option \<Rightarrow> string option) \<Rightarrow> column \<Rightarrow> column" where
  "map_text f (StrCol cells) = StrCol (map f cells)"
| "map_text f (NumCol cells) = NumCol cells"

text \<open>The loop over \<open>country_mappings.items()\<close>, one \<open>with_columns\<close> per alias.\<close>

fun apply_mappings :: "(string \<times> string) list \<Rightarrow> dataframe \<Rightarrow> dataframe" where
  "apply_mappings [] df = df"
| "apply_mappings ((old_name, new_name) # rest) df =
     apply_mappings rest (with_column ''country'' (map_text (when_equals_then old_name new_name)) df)"

definition clean_country_names :: "dataframe \<Rightarrow> py_error + dataframe" where
  "clean_country_names df =
     (if ''country'' \<notin> set (columns df) then Inr df
      else (case map_of df ''country'' of
              Some (StrCol cells) \<Rightarrow>
                Inr (with_column ''country'' (map_text (map_option strip_chars))
                       (apply_mappings country_mappings df))
            | _ \<Rightarrow> Inl PolarsError))"

subsection \<open>fix\_negative\_values\<close>

text \<open>\<open>(pl.col(col) < 0) & pl.col(col).is_not_null()\<close> on one cell, as \<open>filter\<close> reads it.\<close>

fun neg_mask :: "real option \<Rightarrow> bool" where
  "neg_mask None = False"
| "neg_mask (Some v) = (v < 0)"

text \<open>\<open>pl.when(pl.col(col) < 0).then(None).otherwise(pl.col(col))\<close> on one cell.\<close>

fun when_negative_then_null :: "real option \<Rightarrow> real option" where
  "when_negative_then_null None = None"
| "when_negative_then_null (Some v) = (if v < 0 then None else Some v)"

fun map_num :: "(real option \<Rightarrow> real option) \<Rightarrow> column \<Rightarrow> column" where
  "map_num f (NumCol cells) = NumCol (map f cells)"
| "map_num f (StrCol cells) = StrCol cells"

fun fix_negative_values :: "dataframe \<Rightarrow> string list \<Rightarrow> py_error + dataframe" where
  "fix_negative_values df [] = Inr df"
| "fix_negative_values df (col # rest) =
     (if col \<notin> set (columns df) then fix_negative_values df rest
      else if str_contains ''net_flux'' col \<or> str_contains ''removals'' col
      then fix_negative_values df rest
      else (case map_of df col of
              Some (NumCol cells) \<Rightarrow>
                (let count = length (filter neg_mask cells)
                 in if count > 0
                    then fix_negative_values (with_column col (map_num when_negative_then_null) df) rest
                    else fix_negative_values df rest)
            | _ \<Rightarrow> Inl PolarsError))"

subsection \<open>validate\_thresholds\<close>

definition valid_thresholds :: "real list" where
  "valid_thresholds = [0, 10, 15, 20, 25, 30, 50, 75]"

text \<open>
  Polars booleans have three values.  \<open>is_in\<close> of a null is null, \<open>~\<close> of a null is
  null, \<open>filter\<close> keeps the rows whose mask is true, and \<open>when\<close> takes the \<open>then\<close> branch
  only where the mask is true.
\<close>

fun is_in :: "real list \<Rightarrow> real option \<Rightarrow> bool option" where
  "is_in vs None = None"
| "is_in vs (Some x) = Some (x \<in> set vs)"

definition invalid_mask :: "real option \<Rightarrow> bool option" where
  "invalid_mask cell = map_option Not (is_in valid_thresholds cell)"

definition when_then_otherwise :: "bool option \<Rightarrow> 'a \<Rightarrow> 'a \<Rightarrow> 'a" where
  "when_then_otherwise cond a b = (if cond = Some True then a else b)"

text \<open>
  The key of the \<open>lambda\<close>: \<open>abs(v - x) if x is not None else float('inf')\<close>, and
  Python's \<open>min(xs, key=...)\<close>, which keeps the first element whose key is minimal.
\<close>

datatype distance = Finite real | Infinite

fun distance_less :: "distance \<Rightarrow> distance \<Rightarrow> bool" where
  "distance_less (Finite a) (Finite b) = (a < b)"
| "distance_less (Finite a) Infinite = True"
| "distance_less Infinite d = False"

definition threshold_key :: "real option \<Rightarrow> real \<Rightarrow> distance" where
  "threshold_key x v = (case x of Some r \<Rightarrow> Finite \<bar>v - r\<bar> | None \<Rightarrow> Infinite)"

fun min_key_from :: "('a \<Rightarrow> distance) \<Rightarrow> 'a \<Rightarrow> 'a list \<Rightarrow> 'a" where
  "min_key_from key best [] = best"
| "min_key_from key best (v # vs) =
     (if distance_less (key v) (key best) then min_key_from key v vs
      else min_key_from key best vs)"

text \<open>
  \<open>lambda x: min(valid_thresholds, key=...)\<close>.  The list is the non-empty literal, so the
  \<open>ValueError\<close> of \<open>min\<close> on an empty sequence cannot occur.
\<close>

definition nearest_threshold :: "real option \<Rightarrow> real" where
  "nearest_threshold x =
     (case valid_thresholds of v # vs \<Rightarrow> min_key_from (threshold_key x) v vs | [] \<Rightarrow> 0)"

text \<open>
  \<open>map_elements\<close> skips nulls (\<open>skip_nulls=True\<close> is its default): the function is called
  on the non-null cells only and a null cell gives a null.
\<close>

fun map_elements :: "(real option \<Rightarrow> real) \<Rightarrow> real option \<Rightarrow> real option" where
  "map_elements f None = None"
| "map_elements f (Some x) = Some (f (Some x))"

definition round_threshold :: "real option \<Rightarrow> real option" where
  "round_threshold cell =
     when_then_otherwise (invalid_mask cell) (map_elements nearest_threshold cell) cell"

definition validate_thresholds :: "dataframe \<Rightarrow> py_error + dataframe" where
  "validate_thresholds df =
     (if ''threshold'' \<notin> set (columns df) then Inr df
      else (case map_of df ''threshold'' of
              Some (NumCol cells) \<Rightarrow>
                (let invalid_count = length (filter (\<lambda>cell. invalid_mask cell = Some True) cells)
                 in if invalid_count > 0
                    then Inr (with_column ''threshold'' (map_num round_threshold) df)
                    else Inr df)
            | _ \<Rightarrow> Inl PolarsError))"

subsection \<open>validate\_years\<close>

text \<open>
  \<open>(pl.col("year") >= min_year) & (pl.col("year") <= max_year)\<close> as \<open>filter\<close> reads it: a
  null year drops the row.
\<close>

fun year_in_range :: "int \<Rightarrow> int \<Rightarrow> real option \<Rightarrow> bool" where
  "year_in_range min_year max_year None = False"
| "year_in_range min_year max_year (Some y) = (of_int min_year \<le> y \<and> y \<le> of_int max_year)"

definition filter_cells :: "bool list \<Rightarrow> 'a list \<Rightarrow> 'a list" where
  "filter_cells keep cells = map snd (filter fst (zip keep cells))"

fun filter_column :: "bool list \<Rightarrow> column \<Rightarrow> column" where
  "filter_column keep (NumCol cells) = NumCol (filter_cells keep cells)"
| "filter_column keep (StrCol cells) = StrCol (filter_cells keep cells)"

definition filter_rows :: "bool list \<Rightarrow> dataframe \<Rightarrow> dataframe" where
  "filter_rows keep df = map (\<lambda>(n, c). (n, filter_column keep c)) df"

definition validate_years :: "dataframe \<Rightarrow> int \<Rightarrow> int \<Rightarrow> py_error + dataframe" where
  "validate_years df min_year max_year =
     (if ''year'' \<notin> set (columns df) then Inr df
      else (case map_of df ''year'' of
              Some (NumCol cells) \<Rightarrow> Inr (filter_rows (map (year_in_range min_year max_year) cells) df)
            | _ \<Rightarrow> Inl PolarsError))"

section \<open>check\_data\_completeness: loaders.py and validators.py\<close>

text \<open>
  \<open>len(df)\<close> is the height of the frame, \<open>len(df.columns)\<close> the number of its columns,
  \<open>df[col].null_count()\<close> the number of null cells of a column.  The result is a Python
  float; the quotient is taken over the reals.
\<close>

fun col_len :: "column \<Rightarrow> nat" where
  "col_len (NumCol cells) = length cells"
| "col_len (StrCol cells) = length cells"

fun null_count :: "column \<Rightarrow> nat" where
  "null_count (NumCol cells) = length (filter (\<lambda>c. c = None) cells)"
| "null_count (StrCol cells) = length (filter (\<lambda>c. c = None) cells)"

fun height :: "dataframe \<Rightarrow> nat" where
  "height [] = 0"
| "height ((n, c) # df) = col_len c"

text \<open>The dtype test \<open>df[col].dtype in [pl.Float32, pl.Float64, pl.Int32, pl.Int64]\<close>.\<close>

fun is_numeric :: "column \<Rightarrow> bool" where
  "is_numeric (NumCol cells) = True"
| "is_numeric (StrCol cells) = False"

text \<open>The ingestion-stage version, \<open>DataValidator.check_data_completeness\<close> of loaders.py.\<close>

definition loaders_check_data_completeness :: "dataframe \<Rightarrow> real" where
  "loaders_check_data_completeness df =
     (let total_cells = height df * length (columns df)
      in if total_cells = 0 then 0
         else (let null_cells = sum_list (map (\<lambda>(n, c). null_count c) df)
               in 1 - real null_cells / real total_cells))"

text \<open>The post-transform version, \<open>DataValidator.check_data_completeness\<close> of validators.py.\<close>

definition validators_check_data_completeness :: "dataframe \<Rightarrow> real" where
  "validators_check_data_completeness df =
     (let total_cells = height df * length (columns df)
      in if total_cells = 0 then 0
         else (let numeric_cols = filter (\<lambda>(n, c). is_numeric c) df;
                   null_cells = sum_list (map (\<lambda>(n, c). null_count c) numeric_cols);
                   total_numeric_cells = height df * length numeric_cols
               in if total_numeric_cells = 0 then 1
                  else 1 - real null_cells / real total_numeric_cells))"

text \<open>
  The fraction of non-null cells of a collection of columns, as the specification words
  both metrics.
\<close>

definition non_null_fraction :: "dataframe \<Rightarrow> real" where
  "non_null_fraction cols =
     real (sum_list (map (\<lambda>(n, c). col_len c - null_count c) cols)) /
     real (sum_list (map (\<lambda>(n, c). col_len c) cols))"

section \<open>validators.py: validate\_relationships\<close>

text \<open>
  The two frames are read row by row, with the columns the operation names: \<open>country\<close>,
  \<open>year\<close>, \<open>threshold\<close> and \<open>tree_cover_loss_ha\<close> of the tree-cover frame, \<open>country\<close>,
  \<open>year\<close> and \<open>primary_forest_loss_ha\<close> of the primary-forest frame.  Every cell may be
  null.
\<close>

record tree_cover_row =
  tc_country :: "string option"
  tc_year :: "int option"
  tc_threshold :: "int option"
  tree_cover_loss_ha :: "real option"

record primary_forest_row =
  pf_country :: "string option"
  pf_year :: "int option"
  primary_forest_loss_ha :: "real option"

record ValidationResult =
  passed :: bool
  message :: string
  severity :: string
  details :: "(string \<times> nat) list option"

text \<open>\<open>str(n)\<close> for a non-negative integer.\<close>

definition digit_char :: "nat \<Rightarrow> char" where
  "digit_char d = ''0123456789'' ! d"

function str_nat :: "nat \<Rightarrow> string" where
  "str_nat n = (if n < 10 then [digit_char n] else str_nat (n div 10) @ [digit_char (n mod 10)])"
  by pat_completeness auto
termination
  by (relation "measure (\<lambda>n. n)") auto

declare str_nat.simps [simp del]

text \<open>
  The inner join on \<open>country\<close> and \<open>year\<close>: a pair of rows joins when both keys are equal
  and not null (a null key matches nothing).
\<close>

definition join_keys_match :: "tree_cover_row \<Rightarrow> primary_forest_row \<Rightarrow> bool" where
  "join_keys_match t p =
     (tc_country t \<noteq> None \<and> tc_country t = pf_country p \<and>
      tc_year t \<noteq> None \<and> tc_year t = pf_year p)"

definition inner_join ::
  "tree_cover_row list \<Rightarrow> primary_forest_row list \<Rightarrow> (tree_cover_row \<times> primary_forest_row) list" where
  "inner_join left right =
     concat (map (\<lambda>t. map (\<lambda>p. (t, p)) (filter (join_keys_match t) right)) left)"

text \<open>
  The filter \<open>(primary > total) & primary.is_not_null() & total.is_not_null()\<close>: a row is
  kept when the mask is true.
\<close>

fun exceeds_total :: "tree_cover_row \<times> primary_forest_row \<Rightarrow> bool" where
  "exceeds_total (t, p) =
     (case (primary_forest_loss_ha p, tree_cover_loss_ha t) of
        (Some primary_loss, Some total_loss) \<Rightarrow> primary_loss > total_loss
      | _ \<Rightarrow> False)"

definition validate_relationships ::
  "tree_cover_row list \<Rightarrow> primary_forest_row list \<Rightarrow> ValidationResult" where
  "validate_relationships tree_cover_df primary_forest_df =
     (let joined = inner_join (filter (\<lambda>t. tc_threshold t = Some 30) tree_cover_df) primary_forest_df;
          violations = filter exceeds_total joined
      in if length violations > 0
         then \<lparr>passed = False,
               message = ''Found '' @ str_nat (length violations) @
                         '' cases where primary forest loss exceeds total forest loss'',
               severity = ''error'',
               details = Some [(''violation_count'', length violations)]\<rparr>
         else \<lparr>passed = True,
               message = ''Primary forest loss correctly bounded by total forest loss'',
               severity = ''info'',
               details = None\<rparr>)"

section \<open>query\_executor.py: execute\_transaction\<close>

text \<open>
  The SQLite connection of Python's \<open>sqlite3\<close> module.  \<open>stored\<close> is the content of the
  database file, which is all that remains once the connection is closed; \<open>pending\<close> is
  the image of the database inside the open transaction, \<open>None\<close> when no transaction is
  open.  The engine reads an SQL text with its parameters as a statement: one of the
  transaction-control statements, a data-modifying statement (\<open>INSERT\<close>, \<open>UPDATE\<close>,
  \<open>DELETE\<close>, \<open>REPLACE\<close>), before which the module opens a transaction when none is open,
  or any other statement, which runs in autocommit mode when no transaction is open.  A
  statement that fails leaves the connection as it was.  How a text is read is the
  parameter \<open>engine\<close>.
\<close>

datatype 'db statement =
    Begin
  | Commit
  | Rollback
  | Dml "'db \<Rightarrow> py_error + 'db"
  | Other "'db \<Rightarrow> py_error + 'db"

record 'db connection =
  stored :: 'db
  pending :: "'db option"

definition connect :: "'db \<Rightarrow> 'db connection" where
  "connect db = \<lparr>stored = db, pending = None\<rparr>"

text \<open>\<open>conn.close()\<close>: what the transaction did not commit is lost.\<close>

definition close_connection :: "'db connection \<Rightarrow> 'db" where
  "close_connection conn = stored conn"

fun engine_execute :: "'db statement \<Rightarrow> 'db connection \<Rightarrow> py_error + 'db connection" where
  "engine_execute Begin conn =
     (case pending conn of
        None \<Rightarrow> Inr (conn\<lparr>pending := Some (stored conn)\<rparr>)
      | Some w \<Rightarrow> Inl (SqliteError ''cannot start a transaction within a transaction''))"
| "engine_execute Commit conn =
     (case pending conn of
        None \<Rightarrow> Inl (SqliteError ''cannot commit - no transaction is active'')
      | Some w \<Rightarrow> Inr \<lparr>stored = w, pending = None\<rparr>)"
| "engine_execute Rollback conn =
     (case pending conn of
        None \<Rightarrow> Inl (SqliteError ''cannot rollback - no transaction is active'')
      | Some w \<Rightarrow> Inr (conn\<lparr>pending := None\<rparr>))"
| "engine_execute (Dml f) conn =
     (case f (case pending conn of None \<Rightarrow> stored conn | Some w \<Rightarrow> w) of
        Inl e \<Rightarrow> Inl e
      | Inr w' \<Rightarrow> Inr (conn\<lparr>pending := Some w'\<rparr>))"
| "engine_execute (Other f) conn =
     (case pending conn of
        None \<Rightarrow> (case f (stored conn) of Inl e \<Rightarrow> Inl e | Inr d \<Rightarrow> Inr (conn\<lparr>stored := d\<rparr>))
      | Some w \<Rightarrow> (case f w of Inl e \<Rightarrow> Inl e | Inr w' \<Rightarrow> Inr (conn\<lparr>pending := Some w'\<rparr>)))"

text \<open>\<open>conn.commit()\<close> and \<open>conn.rollback()\<close>: nothing happens when no transaction is open.\<close>

definition conn_commit :: "'db connection \<Rightarrow> 'db connection" where
  "conn_commit conn =
     (case pending conn of None \<Rightarrow> conn | Some w \<Rightarrow> \<lparr>stored = w, pending = None\<rparr>)"

definition conn_rollback :: "'db connection \<Rightarrow> 'db connection" where
  "conn_rollback conn = conn\<lparr>pending := None\<rparr>"

text \<open>
  \<open>if params: cursor.execute(sql, params) else: cursor.execute(sql)\<close>: without
  parameters, or with an empty tuple, the statement is executed with no bindings.
\<close>

fun bound_params :: "pyval list option \<Rightarrow> pyval list" where
  "bound_params None = []"
| "bound_params (Some ps) = ps"

text \<open>
  The \<open>for\<close> loop over the operations.  It stops at the first statement that raises and
  hands the exception, with the connection as it is then, to the handler.
\<close>

fun run_operations ::
  "(string \<Rightarrow> pyval list \<Rightarrow> 'db statement) \<Rightarrow> (string \<times> pyval list option) list
     \<Rightarrow> 'db connection \<Rightarrow> py_error option \<times> 'db connection" where
  "run_operations engine [] conn = (None, conn)"
| "run_operations engine ((sql, params) # rest) conn =
     (case engine_execute (engine sql (bound_params params)) conn of
        Inl e \<Rightarrow> (Some e, conn)
      | Inr conn' \<Rightarrow> run_operations engine rest conn')"

text \<open>
  \<open>execute_transaction\<close> on the database \<open>db\<close>: the value returned or the exception
  re-raised, and the database once the connection is closed.
\<close>

definition execute_transaction ::
  "(string \<Rightarrow> pyval list \<Rightarrow> 'db statement) \<Rightarrow> (string \<times> pyval list option) list \<Rightarrow> 'db
     \<Rightarrow> (py_error + bool) \<times> 'db" where
  "execute_transaction engine operations db =
     (let conn = connect db
      in (case engine_execute Begin conn of
            Inl e \<Rightarrow> (Inl e, close_connection (conn_rollback conn))
          | Inr conn1 \<Rightarrow>
              (case run_operations engine operations conn1 of
                 (Some e, conn2) \<Rightarrow> (Inl e, close_connection (conn_rollback conn2))
               | (None, conn2) \<Rightarrow> (Inr True, close_connection (conn_commit conn2)))))"

text \<open>
  The combined effect of a list of operations on a database inside the one explicit
  transaction, when none of them ends that transaction: each statement's effect in turn,
  up to the first one that fails.  A nested \<open>BEGIN\<close> fails.
\<close>

fun ends_transaction :: "'db statement \<Rightarrow> bool" where
  "ends_transaction Commit = True"
| "ends_transaction Rollback = True"
| "ends_transaction s = False"

fun effect :: "'db statement \<Rightarrow> 'db \<Rightarrow> py_error + 'db" where
  "effect (Dml f) d = f d"
| "effect (Other f) d = f d"
| "effect Begin d = Inl (SqliteError ''cannot start a transaction within a transaction'')"
| "effect s d = Inr d"

fun combined_effect ::
  "(string \<Rightarrow> pyval list \<Rightarrow> 'db statement) \<Rightarrow> (string \<times> pyval list option) list \<Rightarrow> 'db
     \<Rightarrow> py_error + 'db" where
  "combined_effect engine [] d = Inr d"
| "combined_effect engine ((sql, params) # rest) d =
     (case effect (engine sql (bound_params params)) d of
        Inl e \<Rightarrow> Inl e
      | Inr d' \<Rightarrow> combined_effect engine rest d')"

text \<open>
  A small engine for the instances below: the database is the list of values of one
  table \<open>t\<close>; the insert appends its parameters, \<open>COMMIT\<close> commits, and every other text
  is refused.
\<close>

definition sample_engine :: "string \<Rightarrow> pyval list \<Rightarrow> (pyval list) statement" where
  "sample_engine sql params =
     (if sql = ''INSERT INTO t VALUES (?)'' then Dml (\<lambda>rows. Inr (rows @ params))
      else if sql = ''COMMIT'' then Commit
      else Other (\<lambda>rows. Inl (SqliteError ''syntax error'')))"

section \<open>mcp\_stdio\_server.py: handle\_query\_carbon\_data\<close>

text \<open>
  The handler reads the database through the server's own \<open>QueryExecutor.execute_query\<close>,
  which returns the rows of the query and the empty list when the engine raises.  The
  handler issues two queries: the latest-year query of \<open>get_latest_year\<close>, whose single
  row holds \<open>max_year\<close>, and the carbon lookup by country, year and threshold, whose rows
  hold the selected columns.  The database is therefore the answers to these two
  queries, and every executed query is appended to a log.
\<close>

record carbon_row =
  carbon_emissions_mg_co2e :: pyval
  carbon_emissions_annual_avg :: pyval
  carbon_removals_annual_avg :: pyval
  carbon_net_flux_annual_avg :: pyval
  carbon_density_mg_c_ha :: pyval
  carbon_flux_status :: pyval

record forest_db =
  latest_year_result :: "pyval option"
  carbon_lookup :: "pyval \<Rightarrow> pyval \<Rightarrow> pyval \<Rightarrow> carbon_row list"

datatype query = LatestYearQuery | CarbonQuery pyval pyval pyval

text \<open>
  What the source leaves to the interpreter and to the network: \<open>str(v)\<close> as an f-string
  renders it, the format \<open>f"{v:,.0f}"\<close>, and the answer of \<open>call_climategpt\<close> (the empty
  string when the service is not configured or fails).
\<close>

record externals =
  py_str :: "pyval \<Rightarrow> string"
  comma_format :: "pyval \<Rightarrow> string"
  call_climategpt :: "string \<Rightarrow> carbon_row list \<Rightarrow> string \<Rightarrow> string"

definition nl :: string where
  "nl = [CHR 0x0A]"

definition bullet :: string where
  "bullet = [CHR 0xE2, CHR 0x80, CHR 0xA2, CHR '' '']"

fun format_number :: "externals \<Rightarrow> pyval \<Rightarrow> string" where
  "format_number ext PyNone = ''N/A''"
| "format_number ext (PyInt n) = comma_format ext (PyInt n)"
| "format_number ext (PyFloat r) = comma_format ext (PyFloat r)"
| "format_number ext v = py_str ext v"

definition get_latest_year :: "forest_db \<Rightarrow> query list \<Rightarrow> pyval \<times> query list" where
  "get_latest_year db executed =
     ((case latest_year_result db of Some max_year \<Rightarrow> max_year | None \<Rightarrow> PyInt 2024),
      executed @ [LatestYearQuery])"

definition add_source_attribution :: "string \<Rightarrow> string" where
  "add_source_attribution response =
     response @ nl @ nl @ ''---'' @ nl @ ''*Source: Hansen/UMD/Google/USGS/NASA*''"

text \<open>\<open>threshold in [30, 50, 75]\<close>, by Python's equality of numbers.\<close>

fun in_carbon_thresholds :: "pyval \<Rightarrow> bool" where
  "in_carbon_thresholds (PyInt n) = (n = 30 \<or> n = 50 \<or> n = 75)"
| "in_carbon_thresholds (PyFloat r) = (r = 30 \<or> r = 50 \<or> r = 75)"
| "in_carbon_thresholds v = False"

text \<open>\<open>net_flux < 0\<close>: a number is compared, anything else raises \<open>TypeError\<close>.\<close>

fun less_than_zero :: "pyval \<Rightarrow> py_error + bool" where
  "less_than_zero (PyInt n) = Inr (n < 0)"
| "less_than_zero (PyFloat r) = Inr (r < 0)"
| "less_than_zero v = Inl TypeError"

definition guidance_text :: "externals \<Rightarrow> pyval \<Rightarrow> string" where
  "guidance_text ext threshold =
     concat [''Carbon data is only available for thresholds 30%, 50%, and 75%.'', nl, nl,
             ''You requested '', py_str ext threshold, ''%. '',
             ''Please use 30, 50, or 75.'']"

definition no_data_text :: "externals \<Rightarrow> pyval \<Rightarrow> pyval \<Rightarrow> pyval \<Rightarrow> string" where
  "no_data_text ext country year threshold =
     concat [''No carbon data found for '', py_str ext country, '' in '', py_str ext year,
             '' at '', py_str ext threshold, ''% threshold.'', nl, nl,
             ''Suggestions:'', nl, bullet, ''Check country name'', nl,
             bullet, ''Try a different year (2001-2024)'', nl,
             bullet, ''Try threshold 30, 50, or 75'']"

definition net_flux_line :: "externals \<Rightarrow> pyval \<Rightarrow> bool \<Rightarrow> string" where
  "net_flux_line ext net_flux is_sink =
     concat [bullet, ''Net Flux: '', format_number ext net_flux, '' Mg CO2e/yr ('',
             (if is_sink then ''SINK'' else ''SOURCE''), '')'', nl]"

definition carbon_response ::
  "externals \<Rightarrow> pyval \<Rightarrow> pyval \<Rightarrow> pyval \<Rightarrow> carbon_row \<Rightarrow> bool \<Rightarrow> string" where
  "carbon_response ext country year threshold row is_sink =
     concat
       [concat [''**Carbon Data: '', py_str ext country, '' ('', py_str ext year, '')**'', nl, nl],
        concat [bullet, ''Threshold: '', py_str ext threshold, ''%'', nl],
        concat [bullet, ''Carbon Emissions: '', format_number ext (carbon_emissions_mg_co2e row),
                '' Mg CO2e'', nl],
        concat [bullet, ''Annual Emissions: '', format_number ext (carbon_emissions_annual_avg row),
                '' Mg CO2e/yr'', nl],
        concat [bullet, ''Annual Removals: '', format_number ext (carbon_removals_annual_avg row),
                '' Mg CO2/yr'', nl],
        net_flux_line ext (carbon_net_flux_annual_avg row) is_sink,
        concat [bullet, ''Carbon Density: '', format_number ext (carbon_density_mg_c_ha row),
                '' Mg C/ha'', nl],
        concat [bullet, ''Status: '', py_str ext (carbon_flux_status row), nl]]"

definition climate_question :: "externals \<Rightarrow> pyval \<Rightarrow> pyval \<Rightarrow> string" where
  "climate_question ext country year =
     concat [''Carbon emissions from deforestation in '', py_str ext country, '' during '',
             py_str ext year]"

definition climate_context :: string where
  "climate_context = ''Negative net flux indicates carbon sink (forest absorbing more than emitting). Positive indicates source (emitting more than absorbing).''"

text \<open>
  The handler.  Python evaluates the arguments of \<open>args.get("year", get_latest_year())\<close>
  before the call, so the latest-year query runs whether or not \<open>year\<close> is given.  The
  result is the text of the single \<open>TextContent\<close> returned, or the exception raised,
  together with the queries executed.
\<close>

definition handle_query_carbon_data ::
  "externals \<Rightarrow> forest_db \<Rightarrow> (string \<rightharpoonup> pyval) \<Rightarrow> (py_error + string) \<times> query list" where
  "handle_query_carbon_data ext db args =
     (case args ''country'' of
        None \<Rightarrow> (Inl (KeyError ''country''), [])
      | Some country \<Rightarrow>
          (let (latest, executed1) = get_latest_year db [];
               year = (case args ''year'' of Some y \<Rightarrow> y | None \<Rightarrow> latest);
               threshold = (case args ''threshold'' of Some t \<Rightarrow> t | None \<Rightarrow> PyInt 30)
           in if \<not> in_carbon_thresholds threshold
              then (Inr (guidance_text ext threshold), executed1)
              else (let results = carbon_lookup db country year threshold;
                        executed2 = executed1 @ [CarbonQuery country year threshold]
                    in (case results of
                          [] \<Rightarrow> (Inr (no_data_text ext country year threshold), executed2)
                        | row # others \<Rightarrow>
                            (case less_than_zero (carbon_net_flux_annual_avg row) of
                               Inl e \<Rightarrow> (Inl e, executed2)
                             | Inr is_sink \<Rightarrow>
                                 (let response = carbon_response ext country year threshold row is_sink;
                                      climate_analysis =
                                        call_climategpt ext (climate_question ext country year)
                                          results climate_context;
                                      response =
                                        (if climate_analysis \<noteq> []
                                         then response @ nl @ ''**Climate Analysis:**'' @ nl @
                                              climate_analysis
                                         else response)
                                  in (Inr (add_source_attribution response), executed2)))))))"

text \<open>
  A concrete interpreter and a concrete database, for the instances below: strings and
  integers are rendered, the climate service is not configured, and the database holds
  one carbon row under every key.
\<close>

definition sample_externals :: externals where
  "sample_externals =
     \<lparr>py_str = (\<lambda>v. case v of PyStr s \<Rightarrow> s
                       | PyInt n \<Rightarrow> (if n < 0 then ''-'' else []) @ str_nat (nat \<bar>n\<bar>)
                       | _ \<Rightarrow> ''?''),
      comma_format = (\<lambda>v. case v of PyInt n \<Rightarrow> (if n < 0 then ''-'' else []) @ str_nat (nat \<bar>n\<bar>)
                             | _ \<Rightarrow> ''?''),
      call_climategpt = (\<lambda>question data context. [])\<rparr>"

definition sample_row :: carbon_row where
  "sample_row =
     \<lparr>carbon_emissions_mg_co2e = PyInt 5, carbon_emissions_annual_avg = PyInt 4,
      carbon_removals_annual_avg = PyInt 7, carbon_net_flux_annual_avg = PyInt (- 3),
      carbon_density_mg_c_ha = PyInt 9, carbon_flux_status = PyStr ''SINK''\<rparr>"

definition sample_db :: forest_db where
  "sample_db = \<lparr>latest_year_result = Some (PyInt 2024),
                carbon_lookup = (\<lambda>country year threshold. [sample_row])\<rparr>"

section \<open>exporter.py, schema.py and views.py: the export path and the percentage view\<close>

text \<open>
  The two fact tables the view reads, with the columns it reads; the rows are those of
  the long-format frames above.  \<open>export_dataframe\<close> replaces the content of a table by
  the rows of a frame inside one transaction: \<open>DELETE\<close>, the inserts, \<open>commit\<close>; when an
  insert violates \<open>NOT NULL\<close> or the primary key, the transaction is rolled back, the
  table keeps its content and the error is raised.
\<close>

record forest_tables =
  fact_tree_cover_loss :: "tree_cover_row list"
  fact_primary_forest :: "primary_forest_row list"

definition tree_cover_key_ok :: "tree_cover_row list \<Rightarrow> bool" where
  "tree_cover_key_ok df =
     ((\<forall>r \<in> set df. tc_country r \<noteq> None \<and> tc_year r \<noteq> None \<and> tc_threshold r \<noteq> None) \<and>
      distinct (map (\<lambda>r. (tc_country r, tc_year r, tc_threshold r)) df))"

definition primary_forest_key_ok :: "primary_forest_row list \<Rightarrow> bool" where
  "primary_forest_key_ok df =
     ((\<forall>r \<in> set df. pf_country r \<noteq> None \<and> pf_year r \<noteq> None) \<and>
      distinct (map (\<lambda>r. (pf_country r, pf_year r)) df))"

definition export_tree_cover :: "tree_cover_row list \<Rightarrow> forest_tables \<Rightarrow> py_error + forest_tables" where
  "export_tree_cover df db =
     (if tree_cover_key_ok df then Inr (db\<lparr>fact_tree_cover_loss := df\<rparr>)
      else Inl (SqliteError ''IntegrityError''))"

definition export_primary_forest ::
  "primary_forest_row list \<Rightarrow> forest_tables \<Rightarrow> py_error + forest_tables" where
  "export_primary_forest df db =
     (if primary_forest_key_ok df then Inr (db\<lparr>fact_primary_forest := df\<rparr>)
      else Inl (SqliteError ''IntegrityError''))"

text \<open>
  \<open>export_all_tables\<close>, as far as the two tables go: each export commits on its own, so
  a failure of the second leaves the first in place.  The result is the exception, if
  any, and the database.
\<close>

definition export_all_tables ::
  "tree_cover_row list \<Rightarrow> primary_forest_row list \<Rightarrow> forest_tables
     \<Rightarrow> py_error option \<times> forest_tables" where
  "export_all_tables tree_cover_df primary_forest_df db =
     (case export_tree_cover tree_cover_df db of
        Inl e \<Rightarrow> (Some e, db)
      | Inr db1 \<Rightarrow>
          (case export_primary_forest primary_forest_df db1 of
             Inl e \<Rightarrow> (Some e, db1)
           | Inr db2 \<Rightarrow> (None, db2)))"

text \<open>The database after \<open>initialize_database\<close>: the tables exist and are empty.\<close>

definition empty_tables :: forest_tables where
  "empty_tables = \<lparr>fact_tree_cover_loss = [], fact_primary_forest = []\<rparr>"

text \<open>
  SQLite's \<open>ROUND(x, 2)\<close>, half away from zero, and the \<open>CASE\<close> expression of the
  view: a null operand gives a null.  The quotient rounded here is the exact one; SQLite
  rounds the double nearest to it, which can differ in the last digit when the exact
  quotient lies at a half.
\<close>

definition sql_round2 :: "real \<Rightarrow> real" where
  "sql_round2 x =
     (if 0 \<le> x then of_int \<lfloor>x * 100 + 1 / 2\<rfloor> / 100
      else - (of_int \<lfloor>- x * 100 + 1 / 2\<rfloor> / 100))"

definition primary_percentage :: "real option \<Rightarrow> real option \<Rightarrow> real option" where
  "primary_percentage total_loss primary_loss =
     (case total_loss of
        None \<Rightarrow> None
      | Some t \<Rightarrow>
          if t > 0
          then (case primary_loss of None \<Rightarrow> None | Some p \<Rightarrow> Some (sql_round2 (p / t * 100)))
          else None)"

record percentage_row =
  v_country :: "string option"
  v_year :: "int option"
  v_tree_cover_loss_ha :: "real option"
  v_primary_forest_loss_ha :: "real option"
  v_primary_percentage :: "real option"

definition view_row :: "tree_cover_row \<Rightarrow> real option \<Rightarrow> percentage_row" where
  "view_row t primary_loss =
     \<lparr>v_country = tc_country t, v_year = tc_year t,
      v_tree_cover_loss_ha = tree_cover_loss_ha t,
      v_primary_forest_loss_ha = primary_loss,
      v_primary_percentage = primary_percentage (tree_cover_loss_ha t) primary_loss\<rparr>"

text \<open>
  The view: the tree-cover rows of threshold 30, left-joined with the primary-forest
  rows on country and year.
\<close>

definition v_primary_forest_percentage :: "forest_tables \<Rightarrow> percentage_row list" where
  "v_primary_forest_percentage db =
     concat (map (\<lambda>t. (case filter (join_keys_match t) (fact_primary_forest db) of
                          [] \<Rightarrow> [view_row t None]
                        | ps \<Rightarrow> map (\<lambda>p. view_row t (primary_forest_loss_ha p)) ps))
                 (filter (\<lambda>t. tc_threshold t = Some 30) (fact_tree_cover_loss db)))"

subsection \<open>Properties of build\_where\_clause\<close>

lemma placeholders_qmarks: "placeholders xs = qmarks (length xs)"
proof -
  have "py_join '','' (map (\<lambda>c. [c]) (replicate n (CHR ''?''))) = qmarks n" for n
    by (induction n rule: qmarks.induct) simp_all
  then show ?thesis by (simp add: placeholders_def)
qed

lemma qmarks_count: "count_list (qmarks n) (CHR ''?'') = n"
  by (induction n rule: qmarks.induct) simp_all

lemma where_loop_accepts:
  "list_all (\<lambda>(column, value). str_isalnum alnum (replace_underscore column)) conditions \<Longrightarrow>
   where_loop alnum conditions where_parts params =
     Inr (where_parts @ map spec_condition conditions,
          params @ concat (map spec_parameters conditions))"
proof (induction conditions arbitrary: where_parts params)
  case Nil
  then show ?case by simp
next
  case (Cons entry rest)
  obtain column "value" where entry: "entry = (column, value)" by (cases entry)
  from Cons.prems entry have ok: "str_isalnum alnum (replace_underscore column)"
    and rest: "list_all (\<lambda>(column, value). str_isalnum alnum (replace_underscore column)) rest"
    by simp_all
  show ?case
    by (cases "value") (simp_all add: entry ok Cons.IH [OF rest] placeholders_qmarks)
qed

lemma where_loop_rejects:
  "\<not> list_all (\<lambda>(column, value). str_isalnum alnum (replace_underscore column)) conditions \<Longrightarrow>
   \<exists>column \<in> fst ` set conditions.
     \<not> str_isalnum alnum (replace_underscore column) \<and>
     where_loop alnum conditions where_parts params =
       Inl (ValueError (''Invalid column name: '' @ column))"
proof (induction conditions arbitrary: where_parts params)
  case Nil
  then show ?case by simp
next
  case (Cons entry rest)
  obtain column "value" where entry: "entry = (column, value)" by (cases entry)
  show ?case
  proof (cases "str_isalnum alnum (replace_underscore column)")
    case False
    then show ?thesis by (auto simp: entry)
  next
    case True
    with Cons.prems entry
    have "\<not> list_all (\<lambda>(column, value). str_isalnum alnum (replace_underscore column)) rest"
      by simp
    from Cons.IH [OF this] True show ?thesis
      by (cases "value") (auto simp: entry)
  qed
qed

lemma isalnum_chars:
  "str_isalnum alnum (replace_underscore column) \<Longrightarrow>
   \<forall>c \<in> set column. alnum c \<or> c = CHR ''_''"
  by (auto simp: str_isalnum_def replace_underscore_def list_all_iff)

lemma build_where_clause_cases:
  "conditions \<noteq> [] \<Longrightarrow>
   (list_all (\<lambda>(column, value). str_isalnum alnum (replace_underscore column)) conditions \<and>
    build_where_clause alnum conditions =
      Inr (''WHERE '' @ py_join '' AND '' (map spec_condition conditions),
           concat (map spec_parameters conditions))) \<or>
   (\<exists>column \<in> fst ` set conditions.
      \<not> str_isalnum alnum (replace_underscore column) \<and>
      build_where_clause alnum conditions =
        Inl (ValueError (''Invalid column name: '' @ column)))"
proof (cases "list_all (\<lambda>(column, value). str_isalnum alnum (replace_underscore column)) conditions")
  case True
  assume "conditions \<noteq> []"
  with True where_loop_accepts [OF True, of "[]" "[]"] show ?thesis
    by (simp add: build_where_clause_def)
next
  case False
  assume ne: "conditions \<noteq> []"
  from where_loop_rejects [OF False, of "[]" "[]"] ne show ?thesis
    by (auto simp: build_where_clause_def)
qed

lemma ascii_alnum_country_year:
  "list_all ascii_alnum ''country''" "list_all ascii_alnum ''year''"
  by (simp_all add: ascii_alnum_def)

lemma isalnum_replace_iff:
  "str_isalnum alnum (replace_underscore column) \<longleftrightarrow>
   (\<forall>c \<in> set column. alnum c \<or> c = CHR ''_'') \<and> (\<exists>c \<in> set column. c \<noteq> CHR ''_'')"
  by (auto simp: str_isalnum_def replace_underscore_def list_all_iff filter_empty_conv)

text \<open>
  C1.  For every condition map, \<open>build_where_clause\<close> raises the invalid-input error
  (\<open>ValueError\<close>) when some column name holds a character that is neither alphanumeric
  nor an underscore, so such a name never reaches the SQL text.  A non-empty map whose
  column names consist of alphanumeric characters and underscores, not underscores alone,
  is accepted, and whenever a non-empty map is accepted the clause is \<open>WHERE\<close> followed by
  the entries' conditions joined with \<open>AND\<close> (\<open>column IS NULL\<close> for a null,
  \<open>column IN (?,...,?)\<close> with exactly one placeholder per element for a list or tuple,
  \<open>column = ?\<close> for a scalar) and the parameters are the entries' values in entry
  order.  The empty map gives the pair of the empty string and the empty tuple, and
  \<open>{"country": "Brazil", "year": 2023}\<close> gives \<open>WHERE country = ? AND year = ?\<close> with
  parameters \<open>("Brazil", 2023)\<close>.  The only fact used about Python's character classes
  is that ASCII letters and digits are alphanumeric.
\<close>

theorem build_where_clause_spec:
  assumes ascii: "\<And>c. ascii_alnum c \<Longrightarrow> alnum c"
  shows
    "((\<exists>(column, value) \<in> set conditions. \<exists>c \<in> set column. \<not> alnum c \<and> c \<noteq> CHR ''_'') \<longrightarrow>
        (\<exists>column \<in> fst ` set conditions.
           build_where_clause alnum conditions =
             Inl (ValueError (''Invalid column name: '' @ column)))) \<and>
     (conditions \<noteq> [] \<and>
      (\<forall>(column, value) \<in> set conditions.
         (\<forall>c \<in> set column. alnum c \<or> c = CHR ''_'') \<and> (\<exists>c \<in> set column. c \<noteq> CHR ''_'')) \<longrightarrow>
        build_where_clause alnum conditions =
          Inr (''WHERE '' @ py_join '' AND '' (map spec_condition conditions),
               concat (map spec_parameters conditions))) \<and>
     (conditions \<noteq> [] \<longrightarrow>
        (\<forall>r. build_where_clause alnum conditions = Inr r \<longrightarrow>
           r = (''WHERE '' @ py_join '' AND '' (map spec_condition conditions),
                concat (map spec_parameters conditions)))) \<and>
     (\<forall>n. count_list (qmarks n) (CHR ''?'') = n) \<and>
     build_where_clause alnum [] = Inr ('''', []) \<and>
     build_where_clause alnum [(''country'', PyStr ''Brazil''), (''year'', PyInt 2023)] =
       Inr (''WHERE country = ? AND year = ?'', [PyStr ''Brazil'', PyInt 2023])"
proof (intro conjI impI allI)
  assume bad: "\<exists>(column, value) \<in> set conditions. \<exists>c \<in> set column. \<not> alnum c \<and> c \<noteq> CHR ''_''"
  then have ne: "conditions \<noteq> []" by auto
  from bad isalnum_chars [of alnum]
  have "\<not> list_all (\<lambda>(column, value). str_isalnum alnum (replace_underscore column)) conditions"
    by (fastforce simp: list_all_iff)
  with build_where_clause_cases [OF ne, of alnum]
  show "\<exists>column \<in> fst ` set conditions.
          build_where_clause alnum conditions =
            Inl (ValueError (''Invalid column name: '' @ column))"
    by blast
next
  assume a: "conditions \<noteq> [] \<and>
      (\<forall>(column, value) \<in> set conditions.
         (\<forall>c \<in> set column. alnum c \<or> c = CHR ''_'') \<and> (\<exists>c \<in> set column. c \<noteq> CHR ''_''))"
  then have "list_all (\<lambda>(column, value). str_isalnum alnum (replace_underscore column)) conditions"
    unfolding list_all_iff isalnum_replace_iff by blast
  from where_loop_accepts [OF this, of "[]" "[]"] a
  show "build_where_clause alnum conditions =
          Inr (''WHERE '' @ py_join '' AND '' (map spec_condition conditions),
               concat (map spec_parameters conditions))"
    by (simp add: build_where_clause_def)
next
  fix r
  assume "conditions \<noteq> []" and "build_where_clause alnum conditions = Inr r"
  with build_where_clause_cases [of conditions alnum]
  show "r = (''WHERE '' @ py_join '' AND '' (map spec_condition conditions),
             concat (map spec_parameters conditions))"
    by auto
next
  fix n show "count_list (qmarks n) (CHR ''?'') = n" by (rule qmarks_count)
next
  show "build_where_clause alnum [] = Inr ('''', [])"
    by (simp add: build_where_clause_def)
next
  let ?conds = "[(''country'', PyStr ''Brazil''), (''year'', PyInt 2023)]"
  from ascii ascii_alnum_country_year
  have "list_all alnum ''country''" "list_all alnum ''year''"
    by (simp_all add: list_all_iff)
  then have "list_all (\<lambda>(column, value). str_isalnum alnum (replace_underscore column)) ?conds"
    by (simp add: str_isalnum_def replace_underscore_def)
  from where_loop_accepts [OF this, of "[]" "[]"]
  show "build_where_clause alnum ?conds =
          Inr (''WHERE country = ? AND year = ?'', [PyStr ''Brazil'', PyInt 2023])"
    by (simp add: build_where_clause_def)
qed

theorem build_where_clause_spec_witness:
  "build_where_clause ascii_alnum [(''year; DROP TABLE t'', PyInt 1)] =
     Inl (ValueError ''Invalid column name: year; DROP TABLE t'') \<and>
   build_where_clause ascii_alnum
       [(''threshold'', PyList [PyInt 30, PyInt 50]), (''primary_loss'', PyNone)] =
     Inr (''WHERE threshold IN (?,?) AND primary_loss IS NULL'', [PyInt 30, PyInt 50]) \<and>
   count_list (qmarks 2) (CHR ''?'') = 2"
proof -
  let ?bad = "[(''year; DROP TABLE t'', PyInt 1)]"
  let ?good = "[(''threshold'', PyList [PyInt 30, PyInt 50]), (''primary_loss'', PyNone)]"
  note t1 = build_where_clause_spec [where alnum = ascii_alnum and conditions = ?bad]
  note t2 = build_where_clause_spec [where alnum = ascii_alnum and conditions = ?good]
  have semicolon: "\<not> ascii_alnum (CHR '';'')" by (simp add: ascii_alnum_def)
  then have "\<exists>(column, value) \<in> set ?bad. \<exists>c \<in> set column. \<not> ascii_alnum c \<and> c \<noteq> CHR ''_''"
    by simp
  with t1 have r1: "build_where_clause ascii_alnum ?bad =
      Inl (ValueError ''Invalid column name: year; DROP TABLE t'')"
    by simp
  have names: "?good \<noteq> [] \<and>
      (\<forall>(column, value) \<in> set ?good.
         (\<forall>c \<in> set column. ascii_alnum c \<or> c = CHR ''_'') \<and> (\<exists>c \<in> set column. c \<noteq> CHR ''_''))"
    by (simp add: ascii_alnum_def)
  from t2 names have "build_where_clause ascii_alnum ?good =
      Inr (''WHERE '' @ py_join '' AND '' (map spec_condition ?good),
           concat (map spec_parameters ?good))"
    by blast
  then have r2: "build_where_clause ascii_alnum ?good =
      Inr (''WHERE threshold IN (?,?) AND primary_loss IS NULL'', [PyInt 30, PyInt 50])"
    by simp
  from t2 have "count_list (qmarks 2) (CHR ''?'') = 2" by blast
  with r1 r2 show ?thesis by simp
qed

subsection \<open>Properties of the cleaner\<close>

lemma columns_with_column: "columns (with_column name expr df) = columns df"
  by (induction df) (auto simp: columns_def with_column_def)

lemma map_of_with_column:
  "map_of (with_column name expr df) n =
     (if n = name then map_option expr (map_of df n) else map_of df n)"
  by (induction df) (auto simp: with_column_def)

lemma when_negative_then_null_idem:
  "map_num when_negative_then_null (map_num when_negative_then_null c) =
   map_num when_negative_then_null c"
proof -
  have "when_negative_then_null (when_negative_then_null x) = when_negative_then_null x" for x
    by (cases x) simp_all
  then show ?thesis by (cases c) simp_all
qed

lemma no_negative_unchanged:
  "filter neg_mask cells = [] \<Longrightarrow> map when_negative_then_null cells = cells"
proof (induction cells)
  case Nil
  then show ?case by simp
next
  case (Cons x xs)
  then show ?case by (cases x) (auto split: if_splits)
qed

lemma fix_negative_values_closed:
  assumes "distinct (columns df)"
    and "\<forall>col \<in> set cols. \<forall>cells. map_of df col = Some (StrCol cells) \<longrightarrow>
           str_contains ''net_flux'' col \<or> str_contains ''removals'' col"
  shows "fix_negative_values df cols =
     Inr (map (\<lambda>(n, c).
            if n \<in> set cols \<and> \<not> (str_contains ''net_flux'' n \<or> str_contains ''removals'' n)
            then (n, map_num when_negative_then_null c) else (n, c)) df)"
  using assms
proof (induction cols arbitrary: df)
  case Nil
  then show ?case by simp
next
  case (Cons col rest)
  let ?ex = "\<lambda>n. str_contains ''net_flux'' n \<or> str_contains ''removals'' n"
  let ?F = "\<lambda>cs (n, c). if n \<in> set cs \<and> \<not> ?ex n
                          then (n, map_num when_negative_then_null c) else (n, c)"
  from Cons.prems have dist: "distinct (columns df)"
    and typed: "\<forall>col \<in> set rest. \<forall>cells. map_of df col = Some (StrCol cells) \<longrightarrow> ?ex col"
    by simp_all
  note IH = Cons.IH [OF dist typed]
  show ?case
  proof (cases "col \<notin> set (columns df) \<or> ?ex col")
    case True
    then have "map (?F (col # rest)) df = map (?F rest) df"
      by (intro map_cong) (force simp: columns_def)+
    with True IH show ?thesis by auto
  next
    case False
    then have present: "col \<in> set (columns df)" and nex: "\<not> ?ex col" by simp_all
    from present have "map_of df col \<noteq> None"
      by (simp add: columns_def map_of_eq_None_iff)
    then obtain c where c: "map_of df col = Some c" by blast
    from Cons.prems(2) nex c obtain cells where cells: "c = NumCol cells"
      by (cases c) auto
    show ?thesis
    proof (cases "filter neg_mask cells = []")
      case True
      have "map (?F (col # rest)) df = map (?F rest) df"
      proof (intro map_cong refl)
        fix e assume e: "e \<in> set df"
        obtain n k where nk: "e = (n, k)" by (cases e)
        show "?F (col # rest) e = ?F rest e"
        proof (cases "n = col")
          case True
          with e nk dist have "map_of df col = Some k"
            by (simp add: columns_def)
          with c cells have "k = NumCol cells" by simp
          with True nk no_negative_unchanged [OF \<open>filter neg_mask cells = []\<close>]
          show ?thesis by simp
        next
          case False
          with nk show ?thesis by simp
        qed
      qed
      with True IH c cells present nex show ?thesis by simp
    next
      case False
      let ?df1 = "with_column col (map_num when_negative_then_null) df"
      have dist1: "distinct (columns ?df1)" by (simp add: columns_with_column dist)
      have typed1: "\<forall>col \<in> set rest. \<forall>cells. map_of ?df1 col = Some (StrCol cells) \<longrightarrow> ?ex col"
      proof (intro ballI allI impI)
        fix c' cells' assume c': "c' \<in> set rest" and m: "map_of ?df1 c' = Some (StrCol cells')"
        show "?ex c'"
        proof (cases "c' = col")
          case True
          with m c cells show ?thesis by (simp add: map_of_with_column)
        next
          case False
          with m have "map_of df c' = Some (StrCol cells')" by (simp add: map_of_with_column)
          with typed c' show ?thesis by blast
        qed
      qed
      have "map (?F rest) ?df1 = map (?F (col # rest)) df"
        using nex by (auto simp: with_column_def when_negative_then_null_idem)
      with Cons.IH [OF dist1 typed1] False c cells present nex show ?thesis by simp
    qed
  qed
qed

text \<open>
  C4.  For every data frame and every list of column names: a named column whose name
  contains \<open>net_flux\<close> or \<open>removals\<close> is left as it is (its negative values stay), and
  in every other named column each negative non-null value becomes null while every
  other cell, the nulls included, keeps its value; the columns that are not named are
  untouched.  The named columns that are checked hold numbers (Polars refuses the
  comparison with \<open>0\<close> on a text column).
\<close>

theorem fix_negative_values_policy:
  assumes "distinct (columns df)"
    and "\<forall>col \<in> set cols. \<forall>cells. map_of df col = Some (StrCol cells) \<longrightarrow>
           str_contains ''net_flux'' col \<or> str_contains ''removals'' col"
  shows "\<exists>df'. fix_negative_values df cols = Inr df' \<and> columns df' = columns df \<and>
     (\<forall>name \<in> set (columns df).
        map_of df' name =
          (if name \<in> set cols \<and> \<not> (str_contains ''net_flux'' name \<or> str_contains ''removals'' name)
           then map_option
                  (map_num (\<lambda>cell. case cell of None \<Rightarrow> None
                                   | Some v \<Rightarrow> if v < 0 then None else Some v))
                  (map_of df name)
           else map_of df name))"
proof -
  let ?ex = "\<lambda>n. str_contains ''net_flux'' n \<or> str_contains ''removals'' n"
  let ?g = "\<lambda>n c. if n \<in> set cols \<and> \<not> ?ex n then map_num when_negative_then_null c else c"
  let ?df' = "map (\<lambda>(n, c). (n, ?g n c)) df"
  have same: "(\<lambda>cell. case cell of None \<Rightarrow> None | Some v \<Rightarrow> if v < 0 then None else Some v)
                = when_negative_then_null"
    by (rule ext) (simp split: option.split)
  have "(\<lambda>(n, c). if n \<in> set cols \<and> \<not> ?ex n
                   then (n, map_num when_negative_then_null c) else (n, c))
          = (\<lambda>(n, c). (n, ?g n c))"
    by (rule ext) auto
  with fix_negative_values_closed [OF assms]
  have res: "fix_negative_values df cols = Inr ?df'" by simp
  have cols: "columns ?df' = columns df"
    by (induction df) (auto simp: columns_def)
  have look: "map_of ?df' name = map_option (?g name) (map_of df name)" for name
    by (induction df) auto
  have "map_of ?df' name =
          (if name \<in> set cols \<and> \<not> ?ex name
           then map_option (map_num when_negative_then_null) (map_of df name)
           else map_of df name)" for name
  proof (cases "name \<in> set cols \<and> \<not> ?ex name")
    case True
    then have "?g name = map_num when_negative_then_null" by (intro ext) simp
    with True look [of name] show ?thesis by simp
  next
    case False
    then have "?g name = (\<lambda>c. c)" by (intro ext) auto
    with False look [of name] show ?thesis by (auto simp add: option.map_ident)
  qed
  with res cols show ?thesis unfolding same by blast
qed

theorem fix_negative_values_policy_witness:
  "distinct (columns [(''tree_cover_loss_ha'', NumCol [Some 100, Some (- 50), None]),
                      (''carbon_net_flux_annual_avg'', NumCol [Some 100, Some (- 50), Some 200])]) \<and>
   fix_negative_values
     [(''tree_cover_loss_ha'', NumCol [Some 100, Some (- 50), None]),
      (''carbon_net_flux_annual_avg'', NumCol [Some 100, Some (- 50), Some 200])]
     [''tree_cover_loss_ha'', ''carbon_net_flux_annual_avg''] =
   Inr [(''tree_cover_loss_ha'', NumCol [Some 100, None, None]),
        (''carbon_net_flux_annual_avg'', NumCol [Some 100, Some (- 50), Some 200])]"
proof -
  let ?df = "[(''tree_cover_loss_ha'', NumCol [Some 100, Some (- 50), None]),
              (''carbon_net_flux_annual_avg'', NumCol [Some 100, Some (- 50), Some 200])]"
  let ?cols = "[''tree_cover_loss_ha'', ''carbon_net_flux_annual_avg'']"
  have d: "distinct (columns ?df)" by (simp add: columns_def)
  have t: "\<forall>col \<in> set ?cols. \<forall>cells. map_of ?df col = Some (StrCol cells) \<longrightarrow>
             str_contains ''net_flux'' col \<or> str_contains ''removals'' col"
    by simp
  have flux: "str_contains ''net_flux'' ''carbon_net_flux_annual_avg''"
    by (simp add: str_contains_def sublist_code prefix_code)
  have loss: "\<not> str_contains ''net_flux'' ''tree_cover_loss_ha''"
    "\<not> str_contains ''removals'' ''tree_cover_loss_ha''"
    by (simp_all add: str_contains_def sublist_code prefix_code)
  from fix_negative_values_policy [OF d t]
  have ex: "\<exists>df'. fix_negative_values ?df ?cols = Inr df' \<and> columns df' = columns ?df"
    by blast
  have "fix_negative_values ?df ?cols =
      Inr [(''tree_cover_loss_ha'', NumCol [Some 100, None, None]),
           (''carbon_net_flux_annual_avg'', NumCol [Some 100, Some (- 50), Some 200])]"
    by (simp add: columns_def with_column_def flux loss)
  with ex d show ?thesis by simp
qed

text \<open>
  C5.  The three aliases \<open>USA\<close>, \<open>US\<close> and \<open>United States of America\<close> all become
  \<open>United States\<close>.  The aliases are matched before the white space is trimmed, so the
  padded alias \<open>" USA "\<close> leaves the first application as \<open>USA\<close> and only the second
  application turns it into \<open>United States\<close>: on this frame applying the operation
  twice differs from applying it once.
\<close>

theorem clean_country_names_padded_alias:
  "clean_country_names
     [(''country'', StrCol [Some ''USA'', Some ''US'', Some ''United States of America''])] =
     Inr [(''country'', StrCol [Some ''United States'', Some ''United States'',
                                Some ''United States''])] \<and>
   clean_country_names [(''country'', StrCol [Some '' USA ''])] =
     Inr [(''country'', StrCol [Some ''USA''])] \<and>
   clean_country_names [(''country'', StrCol [Some ''USA''])] =
     Inr [(''country'', StrCol [Some ''United States''])]"
  by (simp add: clean_country_names_def columns_def country_mappings_def with_column_def
        strip_chars_def is_space_def)

text \<open>
  C10.  The column-targeted operations of the cleaner return the frame they were given,
  and raise nothing, when their target column is missing: \<open>clean_country_names\<close>
  without \<open>country\<close>, \<open>validate_thresholds\<close> without \<open>threshold\<close>, \<open>validate_years\<close>
  without \<open>year\<close>; and \<open>fix_negative_values\<close> skips every named column that the frame
  does not have: it behaves as on the named columns that are present, and returns the
  frame unchanged when none of them is.
\<close>

theorem cleaner_total_without_target:
  "(''country'' \<notin> set (columns df) \<longrightarrow> clean_country_names df = Inr df) \<and>
   (''threshold'' \<notin> set (columns df) \<longrightarrow> validate_thresholds df = Inr df) \<and>
   (''year'' \<notin> set (columns df) \<longrightarrow> validate_years df min_year max_year = Inr df) \<and>
   ((\<forall>col \<in> set cols. col \<notin> set (columns df)) \<longrightarrow> fix_negative_values df cols = Inr df) \<and>
   fix_negative_values df cols =
     fix_negative_values df (filter (\<lambda>col. col \<in> set (columns df)) cols)"
proof (intro conjI impI)
  show "fix_negative_values df cols =
          fix_negative_values df (filter (\<lambda>col. col \<in> set (columns df)) cols)"
  proof (induction cols arbitrary: df)
    case Nil
    then show ?case by simp
  next
    case (Cons col rest)
    show ?case
    proof (cases "col \<in> set (columns df)")
      case False
      with Cons.IH [of df] show ?thesis by simp
    next
      case True
      let ?df1 = "with_column col (map_num when_negative_then_null) df"
      from Cons.IH [of ?df1]
      have "fix_negative_values ?df1 rest =
              fix_negative_values ?df1 (filter (\<lambda>col. col \<in> set (columns df)) rest)"
        by (simp add: columns_with_column)
      with True Cons.IH [of df] show ?thesis
        by (simp split: option.split column.split)
    qed
  qed
next
  assume "\<forall>col \<in> set cols. col \<notin> set (columns df)"
  then show "fix_negative_values df cols = Inr df"
    by (induction cols) simp_all
qed (simp_all add: clean_country_names_def validate_thresholds_def validate_years_def)

theorem cleaner_total_without_target_witness:
  "clean_country_names [(''year'', NumCol [Some 2001])] = Inr [(''year'', NumCol [Some 2001])] \<and>
   validate_thresholds [(''year'', NumCol [Some 2001])] = Inr [(''year'', NumCol [Some 2001])] \<and>
   validate_years [(''country'', StrCol [Some ''Peru''])] 2001 2024 =
     Inr [(''country'', StrCol [Some ''Peru''])] \<and>
   fix_negative_values [(''year'', NumCol [Some (- 1)])] [''tree_cover_loss_ha''] =
     Inr [(''year'', NumCol [Some (- 1)])]"
proof -
  have a: "''country'' \<notin> set (columns [(''year'', NumCol [Some 2001])])"
    and b: "''threshold'' \<notin> set (columns [(''year'', NumCol [Some 2001])])"
    and c: "''year'' \<notin> set (columns [(''country'', StrCol [Some ''Peru''])])"
    and d: "\<forall>col \<in> set [''tree_cover_loss_ha'']. col \<notin> set (columns [(''year'', NumCol [Some (- 1)])])"
    by (simp_all add: columns_def)
  from a b cleaner_total_without_target [of "[(''year'', NumCol [Some 2001])]" 2001 2024 "[]"]
  have 1: "clean_country_names [(''year'', NumCol [Some 2001])] = Inr [(''year'', NumCol [Some 2001])]"
    and 2: "validate_thresholds [(''year'', NumCol [Some 2001])] = Inr [(''year'', NumCol [Some 2001])]"
    by blast+
  from c cleaner_total_without_target [of "[(''country'', StrCol [Some ''Peru''])]" 2001 2024 "[]"]
  have 3: "validate_years [(''country'', StrCol [Some ''Peru''])] 2001 2024 =
     Inr [(''country'', StrCol [Some ''Peru''])]"
    by blast
  from d cleaner_total_without_target [of "[(''year'', NumCol [Some (- 1)])]" 2001 2024
      "[''tree_cover_loss_ha'']"]
  have 4: "fix_negative_values [(''year'', NumCol [Some (- 1)])] [''tree_cover_loss_ha''] =
     Inr [(''year'', NumCol [Some (- 1)])]"
    by blast
  from 1 2 3 4 show ?thesis by blast
qed

subsection \<open>Properties of validate\_thresholds\<close>

lemma distance_less_irrefl: "\<not> distance_less d d"
  by (cases d) simp_all

lemma distance_less_trans: "distance_less a b \<Longrightarrow> distance_less b c \<Longrightarrow> distance_less a c"
  by (cases a; cases b; cases c) simp_all

lemma distance_less_total: "\<not> distance_less a b \<Longrightarrow> \<not> distance_less b a \<Longrightarrow> a = b"
  by (cases a; cases b) simp_all

lemma min_key_from_first_minimal:
  "sorted_wrt (<) (best # vs) \<Longrightarrow>
   min_key_from key best vs \<in> set (best # vs) \<and>
   (\<forall>y \<in> set (best # vs). \<not> distance_less (key y) (key (min_key_from key best vs))) \<and>
   (\<forall>y \<in> set (best # vs). key y = key (min_key_from key best vs) \<longrightarrow>
        min_key_from key best vs \<le> (y::real))"
proof (induction vs arbitrary: best)
  case Nil
  then show ?case by (simp add: distance_less_irrefl)
next
  case (Cons v vs)
  show ?case
  proof (cases "distance_less (key v) (key best)")
    case True
    let ?r = "min_key_from key v vs"
    from Cons.prems have "sorted_wrt (<) (v # vs)" by simp
    from Cons.IH [OF this] have mem: "?r \<in> set (v # vs)"
      and least: "\<forall>y \<in> set (v # vs). \<not> distance_less (key y) (key ?r)"
      and ties: "\<forall>y \<in> set (v # vs). key y = key ?r \<longrightarrow> ?r \<le> y"
      by blast+
    from least have rv: "\<not> distance_less (key v) (key ?r)" by simp
    have b1: "\<not> distance_less (key best) (key ?r)"
      using True rv distance_less_trans by blast
    have b2: "key best \<noteq> key ?r"
      using True rv by auto
    from True mem least ties b1 b2 show ?thesis by auto
  next
    case False
    let ?r = "min_key_from key best vs"
    from Cons.prems have sorted: "sorted_wrt (<) (best # vs)" and bv: "best < v"
      and vlt: "\<forall>y \<in> set vs. v < y"
      by auto
    from Cons.IH [OF sorted] have mem: "?r \<in> set (best # vs)"
      and least: "\<forall>y \<in> set (best # vs). \<not> distance_less (key y) (key ?r)"
      and ties: "\<forall>y \<in> set (best # vs). key y = key ?r \<longrightarrow> ?r \<le> y"
      by blast+
    from least have br: "\<not> distance_less (key best) (key ?r)" by simp
    have v1: "\<not> distance_less (key v) (key ?r)"
    proof
      assume "distance_less (key v) (key ?r)"
      moreover have "key ?r = key best \<or> distance_less (key ?r) (key best)"
        using br distance_less_total by blast
      ultimately have "distance_less (key v) (key best)"
        using distance_less_trans by metis
      with False show False by simp
    qed
    have v2: "?r \<le> v" if "key v = key ?r"
    proof -
      from that False have "\<not> distance_less (key ?r) (key best)" by simp
      with br have "key best = key ?r" using distance_less_total by blast
      with ties have "?r \<le> best" by simp
      with bv show ?thesis by simp
    qed
    from False mem least ties v1 v2 show ?thesis by auto
  qed
qed

lemma nearest_threshold_nearest:
  "nearest_threshold (Some x) \<in> set valid_thresholds \<and>
   (\<forall>v \<in> set valid_thresholds. \<bar>nearest_threshold (Some x) - x\<bar> \<le> \<bar>v - x\<bar>) \<and>
   (\<forall>v \<in> set valid_thresholds.
      \<bar>v - x\<bar> = \<bar>nearest_threshold (Some x) - x\<bar> \<longrightarrow> nearest_threshold (Some x) \<le> v)"
proof -
  let ?vs = "[10, 15, 20, 25, 30, 50, 75 :: real]"
  let ?key = "threshold_key (Some x)"
  have sorted: "sorted_wrt (<) (0 # ?vs)" by simp
  have r: "nearest_threshold (Some x) = min_key_from ?key 0 ?vs"
    by (simp add: nearest_threshold_def valid_thresholds_def)
  have v: "valid_thresholds = 0 # ?vs" by (simp add: valid_thresholds_def)
  note m = min_key_from_first_minimal [OF sorted, of ?key, folded r v]
  have k: "?key a = ?key b \<longleftrightarrow> \<bar>a - x\<bar> = \<bar>b - x\<bar>"
    "\<not> distance_less (?key a) (?key b) \<longleftrightarrow> \<bar>b - x\<bar> \<le> \<bar>a - x\<bar>" for a b
    by (simp_all add: threshold_key_def not_less)
  from m show ?thesis unfolding k by blast
qed

lemma invalid_mask_simps:
  "invalid_mask None = None"
  "invalid_mask (Some x) = Some (x \<notin> set valid_thresholds)"
  by (simp_all add: invalid_mask_def)

lemma round_threshold_cases:
  "round_threshold None = None"
  "x \<in> set valid_thresholds \<Longrightarrow> round_threshold (Some x) = Some x"
  "x \<notin> set valid_thresholds \<Longrightarrow> round_threshold (Some x) = Some (nearest_threshold (Some x))"
  by (simp_all add: round_threshold_def when_then_otherwise_def invalid_mask_def)

lemma no_invalid_unchanged:
  "filter (\<lambda>cell. invalid_mask cell = Some True) cells = [] \<Longrightarrow>
   map round_threshold cells = cells"
  by (induction cells)
     (auto simp: round_threshold_def when_then_otherwise_def split: if_splits)

lemma validate_thresholds_result:
  assumes "map_of df ''threshold'' = Some (NumCol cells)"
  shows "\<exists>df'. validate_thresholds df = Inr df' \<and> columns df' = columns df \<and>
           map_of df' ''threshold'' = Some (NumCol (map round_threshold cells)) \<and>
           (\<forall>n. n \<noteq> ''threshold'' \<longrightarrow> map_of df' n = map_of df n)"
proof -
  from assms have present: "''threshold'' \<in> set (columns df)"
    by (auto simp: columns_def dest: map_of_SomeD intro: rev_image_eqI)
  show ?thesis
  proof (cases "filter (\<lambda>cell. invalid_mask cell = Some True) cells = []")
    case True
    with present assms no_invalid_unchanged [OF True] show ?thesis
      by (simp add: validate_thresholds_def)
  next
    case False
    with present assms show ?thesis
      by (simp add: validate_thresholds_def columns_with_column map_of_with_column)
  qed
qed

text \<open>
  C6 (as amended).  For every data frame whose \<open>threshold\<close> column is numeric: a value of
  the canonical set is unchanged, a null stays null, and every other value is replaced by
  a canonical value at the least distance from it, the lowest such value when two are
  equally near; the other columns are unchanged.
\<close>

theorem validate_thresholds_snaps:
  assumes "map_of df ''threshold'' = Some (NumCol cells)"
  shows "\<exists>df' cells'.
     validate_thresholds df = Inr df' \<and> columns df' = columns df \<and>
     (\<forall>n. n \<noteq> ''threshold'' \<longrightarrow> map_of df' n = map_of df n) \<and>
     map_of df' ''threshold'' = Some (NumCol cells') \<and> length cells' = length cells \<and>
     (\<forall>i < length cells.
        (case cells ! i of
           None \<Rightarrow> cells' ! i = None
         | Some x \<Rightarrow>
             if x \<in> set valid_thresholds then cells' ! i = Some x
             else (\<exists>r \<in> set valid_thresholds.
                     cells' ! i = Some r \<and>
                     (\<forall>v \<in> set valid_thresholds. \<bar>r - x\<bar> \<le> \<bar>v - x\<bar>) \<and>
                     (\<forall>v \<in> set valid_thresholds. \<bar>v - x\<bar> = \<bar>r - x\<bar> \<longrightarrow> r \<le> v))))"
proof -
  from validate_thresholds_result [OF assms] obtain df'
    where r: "validate_thresholds df = Inr df'" "columns df' = columns df"
      "map_of df' ''threshold'' = Some (NumCol (map round_threshold cells))"
      "\<forall>n. n \<noteq> ''threshold'' \<longrightarrow> map_of df' n = map_of df n"
    by blast
  have "case cells ! i of
           None \<Rightarrow> map round_threshold cells ! i = None
         | Some x \<Rightarrow>
             if x \<in> set valid_thresholds then map round_threshold cells ! i = Some x
             else (\<exists>r \<in> set valid_thresholds.
                     map round_threshold cells ! i = Some r \<and>
                     (\<forall>v \<in> set valid_thresholds. \<bar>r - x\<bar> \<le> \<bar>v - x\<bar>) \<and>
                     (\<forall>v \<in> set valid_thresholds. \<bar>v - x\<bar> = \<bar>r - x\<bar> \<longrightarrow> r \<le> v))"
    if "i < length cells" for i
  proof (cases "cells ! i")
    case None
    with that show ?thesis by (simp add: round_threshold_cases)
  next
    case (Some x)
    show ?thesis
    proof (cases "x \<in> set valid_thresholds")
      case True
      with Some that show ?thesis by (simp add: round_threshold_cases)
    next
      case False
      with Some that nearest_threshold_nearest [of x] show ?thesis
        by (simp add: round_threshold_cases)
    qed
  qed
  with r show ?thesis by (intro exI [of _ df'] exI [of _ "map round_threshold cells"]) simp
qed

theorem validate_thresholds_snaps_witness:
  "validate_thresholds [(''threshold'', NumCol [Some 30, Some 12, Some 40, None])] =
     Inr [(''threshold'', NumCol [Some 30, Some 10, Some 30, None])]"
proof -
  let ?df = "[(''threshold'', NumCol [Some 30, Some 12, Some 40, None])]"
  have h: "map_of ?df ''threshold'' = Some (NumCol [Some 30, Some 12, Some 40, None])" by simp
  from validate_thresholds_snaps [OF h]
  have ex: "\<exists>df'. validate_thresholds ?df = Inr df' \<and> columns df' = columns ?df" by blast
  have "validate_thresholds ?df = Inr [(''threshold'', NumCol [Some 30, Some 10, Some 30, None])]"
    by (simp add: validate_thresholds_def columns_def with_column_def round_threshold_def
          when_then_otherwise_def invalid_mask_simps valid_thresholds_def nearest_threshold_def
          threshold_key_def)
  with ex show ?thesis by simp
qed

text \<open>
  C6 as stated fails on a null threshold: the key function alone would send \<open>None\<close> to
  the first candidate \<open>0\<close>, but the null cell is neither selected by the mask nor passed
  to the function, and it stays null.
\<close>

theorem validate_thresholds_null_counterexample:
  "nearest_threshold None = 0 \<and>
   validate_thresholds [(''threshold'', NumCol [None, Some 12])] =
     Inr [(''threshold'', NumCol [None, Some 10])]"
  by (simp add: validate_thresholds_def columns_def with_column_def round_threshold_def
        when_then_otherwise_def invalid_mask_simps valid_thresholds_def nearest_threshold_def
        threshold_key_def)

subsection \<open>Properties of the two completeness metrics\<close>

lemma null_count_le: "null_count c \<le> col_len c"
  by (cases c) simp_all

lemma sum_cells_uniform:
  "\<forall>(n, c) \<in> set cols. col_len c = h \<Longrightarrow>
   sum_list (map (\<lambda>(n, c). col_len c) cols) = h * length cols"
  by (induction cols) auto

lemma sum_non_null:
  "sum_list (map (\<lambda>(n, c). col_len c - null_count c) cols) =
   sum_list (map (\<lambda>(n, c). col_len c) cols) - sum_list (map (\<lambda>(n, c). null_count c) cols)"
proof (induction cols)
  case Nil
  then show ?case by simp
next
  case (Cons e cols)
  obtain n c where e: "e = (n, c)" by (cases e)
  have "sum_list (map (\<lambda>(n, c). null_count c) cols) \<le> sum_list (map (\<lambda>(n, c). col_len c) cols)"
    by (induction cols) (auto intro: add_mono null_count_le)
  with Cons.IH null_count_le [of c] show ?case by (simp add: e)
qed

lemma sum_null_le:
  "sum_list (map (\<lambda>(n, c). null_count c) cols) \<le> sum_list (map (\<lambda>(n, c). col_len c) cols)"
  by (induction cols) (auto intro: add_mono null_count_le)

lemma non_null_fraction_uniform:
  assumes "\<forall>(n, c) \<in> set cols. col_len c = h" and "h * length cols \<noteq> 0"
  shows "non_null_fraction cols =
           1 - real (sum_list (map (\<lambda>(n, c). null_count c) cols)) / real (h * length cols)"
proof -
  let ?nulls = "sum_list (map (\<lambda>(n, c). null_count c) cols)"
  from sum_cells_uniform [OF assms(1)]
  have total: "sum_list (map (\<lambda>(n, c). col_len c) cols) = h * length cols" .
  with sum_null_le [of cols] have le: "?nulls \<le> h * length cols" by simp
  have "non_null_fraction cols = real (h * length cols - ?nulls) / real (h * length cols)"
    by (simp add: non_null_fraction_def sum_non_null total)
  also have "\<dots> = (real (h * length cols) - real ?nulls) / real (h * length cols)"
    using le by (simp add: of_nat_diff)
  also have "\<dots> = 1 - real ?nulls / real (h * length cols)"
    using assms(2) by (simp add: diff_divide_distrib)
  finally show ?thesis .
qed

text \<open>
  C9.  On a frame with cells (columns of one height, at least one row and one column) the
  loaders' metric is the fraction of non-null cells over all columns; the validators'
  metric is the fraction of non-null cells over the numeric columns only (when there is
  one); and the two differ on the one-column text frame with one null out of two cells:
  the loaders give one half, the validators give one.
\<close>

theorem completeness_metrics_differ:
  "((\<forall>(n, c) \<in> set df. col_len c = height df) \<and> height df * length df \<noteq> 0 \<longrightarrow>
      loaders_check_data_completeness df = non_null_fraction df) \<and>
   ((\<forall>(n, c) \<in> set df. col_len c = height df) \<and>
    height df * length (filter (\<lambda>(n, c). is_numeric c) df) \<noteq> 0 \<longrightarrow>
      validators_check_data_completeness df =
        non_null_fraction (filter (\<lambda>(n, c). is_numeric c) df)) \<and>
   loaders_check_data_completeness [(''country'', StrCol [None, Some ''Peru''])] = 1 / 2 \<and>
   validators_check_data_completeness [(''country'', StrCol [None, Some ''Peru''])] = 1 \<and>
   loaders_check_data_completeness [(''country'', StrCol [None, Some ''Peru''])] \<noteq>
   validators_check_data_completeness [(''country'', StrCol [None, Some ''Peru''])]"
proof (intro conjI impI)
  assume a: "(\<forall>(n, c) \<in> set df. col_len c = height df) \<and> height df * length df \<noteq> 0"
  then have "non_null_fraction df =
      1 - real (sum_list (map (\<lambda>(n, c). null_count c) df)) / real (height df * length df)"
    by (intro non_null_fraction_uniform) simp_all
  with a show "loaders_check_data_completeness df = non_null_fraction df"
    by (simp add: loaders_check_data_completeness_def columns_def Let_def)
next
  let ?num = "filter (\<lambda>(n, c). is_numeric c) df"
  assume a: "(\<forall>(n, c) \<in> set df. col_len c = height df) \<and> height df * length ?num \<noteq> 0"
  then have "\<forall>(n, c) \<in> set ?num. col_len c = height df" by auto
  with a have "non_null_fraction ?num =
      1 - real (sum_list (map (\<lambda>(n, c). null_count c) ?num)) / real (height df * length ?num)"
    by (intro non_null_fraction_uniform) simp_all
  moreover from a have "df \<noteq> []" by auto
  then have "length df \<noteq> 0" by simp
  ultimately show "validators_check_data_completeness df = non_null_fraction ?num"
    using a by (simp add: validators_check_data_completeness_def columns_def Let_def)
qed (simp_all add: loaders_check_data_completeness_def validators_check_data_completeness_def
       columns_def)

theorem completeness_metrics_differ_witness:
  "loaders_check_data_completeness
     [(''year'', NumCol [Some 2001, Some 2002]), (''country'', StrCol [None, Some ''Peru''])] = 3 / 4 \<and>
   validators_check_data_completeness
     [(''year'', NumCol [Some 2001, Some 2002]), (''country'', StrCol [None, Some ''Peru''])] = 1"
proof -
  let ?df = "[(''year'', NumCol [Some 2001, Some 2002]), (''country'', StrCol [None, Some ''Peru''])]"
  have u: "\<forall>(n, c) \<in> set ?df. col_len c = height ?df" by simp
  have l: "height ?df * length ?df \<noteq> 0" by simp
  have v: "height ?df * length (filter (\<lambda>(n, c). is_numeric c) ?df) \<noteq> 0" by simp
  from completeness_metrics_differ [of ?df] u l
  have 1: "loaders_check_data_completeness ?df = non_null_fraction ?df" by blast
  from completeness_metrics_differ [of ?df] u v
  have 2: "validators_check_data_completeness ?df =
             non_null_fraction (filter (\<lambda>(n, c). is_numeric c) ?df)" by blast
  have "non_null_fraction ?df = 3 / 4"
    "non_null_fraction (filter (\<lambda>(n, c). is_numeric c) ?df) = 1"
    by (simp_all add: non_null_fraction_def)
  with 1 2 show ?thesis by simp
qed

subsection \<open>Properties of validate\_relationships\<close>

lemma violations_iff:
  "filter exceeds_total
     (inner_join (filter (\<lambda>t. tc_threshold t = Some 30) tree_cover_df) primary_forest_df) \<noteq> [] \<longleftrightarrow>
   (\<exists>t \<in> set tree_cover_df. \<exists>p \<in> set primary_forest_df.
      tc_threshold t = Some 30 \<and> join_keys_match t p \<and> exceeds_total (t, p))"
  by (auto simp: filter_empty_conv inner_join_def)

lemma str_nat_1: "str_nat (Suc 0) = ''1''"
  by (simp add: str_nat.simps [of "Suc 0"] digit_char_def)

text \<open>
  C3 (as amended).  \<open>validate_relationships\<close> joins the tree-cover rows of threshold 30
  with the primary-forest rows on country and year.  It passes, with severity \<open>info\<close>,
  exactly when no joined pair has a non-null primary loss greater than its non-null
  tree-cover loss; otherwise the result has severity \<open>error\<close>, is not passed, and its
  message contains \<open>exceeds total forest loss\<close>.  For the pair with tree-cover loss 100
  and primary loss 200 the result is such an error.
\<close>

theorem validate_relationships_strict:
  "((\<forall>t \<in> set tree_cover_df. \<forall>p \<in> set primary_forest_df.
        tc_threshold t = Some 30 \<and> join_keys_match t p \<longrightarrow> \<not> exceeds_total (t, p)) \<longrightarrow>
      passed (validate_relationships tree_cover_df primary_forest_df) \<and>
      severity (validate_relationships tree_cover_df primary_forest_df) = ''info'') \<and>
   ((\<exists>t \<in> set tree_cover_df. \<exists>p \<in> set primary_forest_df.
        tc_threshold t = Some 30 \<and> join_keys_match t p \<and> exceeds_total (t, p)) \<longrightarrow>
      \<not> passed (validate_relationships tree_cover_df primary_forest_df) \<and>
      severity (validate_relationships tree_cover_df primary_forest_df) = ''error'' \<and>
      sublist ''exceeds total forest loss''
        (message (validate_relationships tree_cover_df primary_forest_df))) \<and>
   validate_relationships
     [\<lparr>tc_country = Some ''Brazil'', tc_year = Some 2022, tc_threshold = Some 30,
       tree_cover_loss_ha = Some 100\<rparr>]
     [\<lparr>pf_country = Some ''Brazil'', pf_year = Some 2022, primary_forest_loss_ha = Some 200\<rparr>] =
     \<lparr>passed = False,
      message = ''Found 1 cases where primary forest loss exceeds total forest loss'',
      severity = ''error'',
      details = Some [(''violation_count'', 1)]\<rparr>"
proof (intro conjI impI)
  assume "\<forall>t \<in> set tree_cover_df. \<forall>p \<in> set primary_forest_df.
        tc_threshold t = Some 30 \<and> join_keys_match t p \<longrightarrow> \<not> exceeds_total (t, p)"
  with violations_iff [of tree_cover_df primary_forest_df]
  have "filter exceeds_total
     (inner_join (filter (\<lambda>t. tc_threshold t = Some 30) tree_cover_df) primary_forest_df) = []"
    by blast
  then show "passed (validate_relationships tree_cover_df primary_forest_df)"
    and "severity (validate_relationships tree_cover_df primary_forest_df) = ''info''"
    by (simp_all add: validate_relationships_def)
next
  assume "\<exists>t \<in> set tree_cover_df. \<exists>p \<in> set primary_forest_df.
        tc_threshold t = Some 30 \<and> join_keys_match t p \<and> exceeds_total (t, p)"
  with violations_iff [of tree_cover_df primary_forest_df]
  have ne: "filter exceeds_total
     (inner_join (filter (\<lambda>t. tc_threshold t = Some 30) tree_cover_df) primary_forest_df) \<noteq> []"
    by blast
  then show "\<not> passed (validate_relationships tree_cover_df primary_forest_df)"
    and "severity (validate_relationships tree_cover_df primary_forest_df) = ''error''"
    by (simp_all add: validate_relationships_def Let_def)
  have "sublist ''exceeds total forest loss''
          ((''Found '' @ str_nat k @ '' cases where primary forest loss '') @
           ''exceeds total forest loss'' @ [])" for k
    by (rule sublist_appendI)
  with ne show "sublist ''exceeds total forest loss''
        (message (validate_relationships tree_cover_df primary_forest_df))"
    by (simp add: validate_relationships_def Let_def)
next
  show "validate_relationships
     [\<lparr>tc_country = Some ''Brazil'', tc_year = Some 2022, tc_threshold = Some 30,
       tree_cover_loss_ha = Some 100\<rparr>]
     [\<lparr>pf_country = Some ''Brazil'', pf_year = Some 2022, primary_forest_loss_ha = Some 200\<rparr>] =
     \<lparr>passed = False,
      message = ''Found 1 cases where primary forest loss exceeds total forest loss'',
      severity = ''error'',
      details = Some [(''violation_count'', 1)]\<rparr>"
    by (simp add: validate_relationships_def inner_join_def join_keys_match_def
          str_nat_1)
qed

theorem validate_relationships_strict_witness:
  "passed (validate_relationships
     [\<lparr>tc_country = Some ''Brazil'', tc_year = Some 2022, tc_threshold = Some 30,
       tree_cover_loss_ha = Some 1000\<rparr>]
     [\<lparr>pf_country = Some ''Brazil'', pf_year = Some 2022, primary_forest_loss_ha = Some 500\<rparr>]) \<and>
   severity (validate_relationships
     [\<lparr>tc_country = Some ''Peru'', tc_year = Some 2021, tc_threshold = Some 30,
       tree_cover_loss_ha = Some 10\<rparr>]
     [\<lparr>pf_country = Some ''Peru'', pf_year = Some 2021, primary_forest_loss_ha = Some 11\<rparr>]) =
     ''error''"
proof -
  let ?t1 = "\<lparr>tc_country = Some ''Brazil'', tc_year = Some 2022, tc_threshold = Some 30,
       tree_cover_loss_ha = Some 1000\<rparr>"
  let ?p1 = "\<lparr>pf_country = Some ''Brazil'', pf_year = Some 2022, primary_forest_loss_ha = Some 500\<rparr>"
  let ?t2 = "\<lparr>tc_country = Some ''Peru'', tc_year = Some 2021, tc_threshold = Some 30,
       tree_cover_loss_ha = Some 10\<rparr>"
  let ?p2 = "\<lparr>pf_country = Some ''Peru'', pf_year = Some 2021, primary_forest_loss_ha = Some 11\<rparr>"
  have ok: "\<forall>t \<in> set [?t1]. \<forall>p \<in> set [?p1].
        tc_threshold t = Some 30 \<and> join_keys_match t p \<longrightarrow> \<not> exceeds_total (t, p)"
    by simp
  have bad: "\<exists>t \<in> set [?t2]. \<exists>p \<in> set [?p2].
        tc_threshold t = Some 30 \<and> join_keys_match t p \<and> exceeds_total (t, p)"
    by (simp add: join_keys_match_def)
  from ok validate_relationships_strict [of "[?t1]" "[?p1]"]
  have 1: "passed (validate_relationships [?t1] [?p1])" by blast
  from bad validate_relationships_strict [of "[?t2]" "[?p2]"]
  have 2: "severity (validate_relationships [?t2] [?p2]) = ''error''" by blast
  from 1 2 show ?thesis by blast
qed

text \<open>
  C3 as stated fails where the primary loss exceeds the tree-cover loss by no more than
  100 ha: with tree-cover loss 100 and primary loss 150 the result is an error.
\<close>

theorem validate_relationships_tolerance_counterexample:
  "(150::real) - 100 \<le> 100 \<and>
   validate_relationships
     [\<lparr>tc_country = Some ''Brazil'', tc_year = Some 2022, tc_threshold = Some 30,
       tree_cover_loss_ha = Some 100\<rparr>]
     [\<lparr>pf_country = Some ''Brazil'', pf_year = Some 2022, primary_forest_loss_ha = Some 150\<rparr>] =
     \<lparr>passed = False,
      message = ''Found 1 cases where primary forest loss exceeds total forest loss'',
      severity = ''error'',
      details = Some [(''violation_count'', 1)]\<rparr>"
  by (simp add: validate_relationships_def inner_join_def join_keys_match_def
        str_nat_1)

subsection \<open>Properties of handle\_query\_carbon\_data\<close>

lemma sublist_concat_member: "x \<in> set parts \<Longrightarrow> sublist x (concat parts)"
proof -
  assume "x \<in> set parts"
  then obtain ps ss where "parts = ps @ x # ss" by (auto simp: in_set_conv_decomp)
  then have "concat parts = concat ps @ x @ concat ss" by simp
  then show ?thesis by (metis sublist_appendI)
qed

lemma guidance_text_advice: "sublist ''Please use 30, 50, or 75.'' (guidance_text ext threshold)"
  unfolding guidance_text_def by (rule sublist_concat_member) simp

lemma carbon_response_flux_line:
  "sublist (net_flux_line ext (carbon_net_flux_annual_avg row) is_sink)
     (carbon_response ext country year threshold row is_sink)"
  unfolding carbon_response_def by (rule sublist_concat_member) simp

lemma sublist_extend: "sublist x y \<Longrightarrow> sublist x (y @ z)"
  unfolding sublist_def by (metis append.assoc)

text \<open>
  C8 (as amended).  For every invocation that supplies \<open>country\<close>: the handler first runs
  the latest-year query (Python evaluates the default of \<open>year\<close> eagerly).  When the
  threshold argument is not one of 30, 50 and 75 it then returns, without raising and
  without running the carbon lookup, a text that tells the caller to use 30, 50 or 75.
  When the threshold is one of them it runs exactly one carbon lookup, by country, year
  and threshold, and when the first row returned has a numeric net flux the text it
  returns carries the net-flux line marked \<open>SINK\<close> if the flux is negative and \<open>SOURCE\<close>
  otherwise.
\<close>

theorem handle_query_carbon_data_guidance:
  assumes "args ''country'' = Some country"
  shows
    "(let threshold = (case args ''threshold'' of Some t \<Rightarrow> t | None \<Rightarrow> PyInt 30);
          year = (case args ''year'' of Some y \<Rightarrow> y
                  | None \<Rightarrow> (case latest_year_result db of Some m \<Rightarrow> m | None \<Rightarrow> PyInt 2024))
      in (\<not> in_carbon_thresholds threshold \<longrightarrow>
            handle_query_carbon_data ext db args =
              (Inr (guidance_text ext threshold), [LatestYearQuery]) \<and>
            sublist ''Please use 30, 50, or 75.'' (guidance_text ext threshold)) \<and>
         (in_carbon_thresholds threshold \<longrightarrow>
            snd (handle_query_carbon_data ext db args) =
              [LatestYearQuery, CarbonQuery country year threshold] \<and>
            (\<forall>row others is_sink.
               carbon_lookup db country year threshold = row # others \<and>
               less_than_zero (carbon_net_flux_annual_avg row) = Inr is_sink \<longrightarrow>
               (\<exists>response. fst (handle_query_carbon_data ext db args) = Inr response \<and>
                  sublist (net_flux_line ext (carbon_net_flux_annual_avg row) is_sink) response))))"
proof -
  let ?threshold = "case args ''threshold'' of Some t \<Rightarrow> t | None \<Rightarrow> PyInt 30"
  let ?year = "case args ''year'' of Some y \<Rightarrow> y
                  | None \<Rightarrow> (case latest_year_result db of Some m \<Rightarrow> m | None \<Rightarrow> PyInt 2024)"
  have g: "\<not> in_carbon_thresholds ?threshold \<Longrightarrow>
        handle_query_carbon_data ext db args = (Inr (guidance_text ext ?threshold), [LatestYearQuery])"
    using assms by (simp add: handle_query_carbon_data_def get_latest_year_def)
  have l: "in_carbon_thresholds ?threshold \<Longrightarrow>
        snd (handle_query_carbon_data ext db args) =
          [LatestYearQuery, CarbonQuery country ?year ?threshold]"
    using assms
    by (simp add: handle_query_carbon_data_def get_latest_year_def Let_def
          split: list.split sum.split)
  have r: "\<exists>response. fst (handle_query_carbon_data ext db args) = Inr response \<and>
             sublist (net_flux_line ext (carbon_net_flux_annual_avg row) is_sink) response"
    if "in_carbon_thresholds ?threshold"
      and "carbon_lookup db country ?year ?threshold = row # others"
      and "less_than_zero (carbon_net_flux_annual_avg row) = Inr is_sink"
    for row others is_sink
  proof -
    let ?resp = "carbon_response ext country ?year ?threshold row is_sink"
    have s: "sublist (net_flux_line ext (carbon_net_flux_annual_avg row) is_sink) (?resp @ z)" for z
      by (rule sublist_extend) (rule carbon_response_flux_line)
    from s [of "nl @ nl @ ''---'' @ nl @ ''*Source: Hansen/UMD/Google/USGS/NASA*''"]
      s [of "(nl @ ''**Climate Analysis:**'' @ nl @
              call_climategpt ext (climate_question ext country ?year) (row # others) climate_context)
             @ nl @ nl @ ''---'' @ nl @ ''*Source: Hansen/UMD/Google/USGS/NASA*''"]
    show ?thesis using assms that
      by (simp add: handle_query_carbon_data_def get_latest_year_def Let_def
            add_source_attribution_def)
  qed
  from g l r guidance_text_advice show ?thesis
    unfolding Let_def by blast
qed

theorem handle_query_carbon_data_guidance_witness:
  "handle_query_carbon_data sample_externals sample_db
     [''country'' \<mapsto> PyStr ''Brazil'', ''threshold'' \<mapsto> PyInt 10] =
     (Inr (guidance_text sample_externals (PyInt 10)), [LatestYearQuery]) \<and>
   snd (handle_query_carbon_data sample_externals sample_db
     [''country'' \<mapsto> PyStr ''Brazil'', ''year'' \<mapsto> PyInt 2020]) =
     [LatestYearQuery, CarbonQuery (PyStr ''Brazil'') (PyInt 2020) (PyInt 30)] \<and>
   (\<exists>response. fst (handle_query_carbon_data sample_externals sample_db
       [''country'' \<mapsto> PyStr ''Brazil'', ''year'' \<mapsto> PyInt 2020]) = Inr response \<and>
     sublist (net_flux_line sample_externals (PyInt (- 3)) True) response)"
proof -
  let ?a1 = "[''country'' \<mapsto> PyStr ''Brazil'', ''threshold'' \<mapsto> PyInt 10]"
  let ?a2 = "[''country'' \<mapsto> PyStr ''Brazil'', ''year'' \<mapsto> PyInt 2020]"
  have c1: "?a1 ''country'' = Some (PyStr ''Brazil'')" by simp
  have c2: "?a2 ''country'' = Some (PyStr ''Brazil'')" by simp
  note t1 = handle_query_carbon_data_guidance [where args = ?a1 and country = "PyStr ''Brazil''"
      and db = sample_db and ext = sample_externals, OF c1, unfolded Let_def]
  note t2 = handle_query_carbon_data_guidance [where args = ?a2 and country = "PyStr ''Brazil''"
      and db = sample_db and ext = sample_externals, OF c2, unfolded Let_def]
  from t1 have 1: "handle_query_carbon_data sample_externals sample_db ?a1 =
     (Inr (guidance_text sample_externals (PyInt 10)), [LatestYearQuery])"
    by simp
  from t2 have 2: "snd (handle_query_carbon_data sample_externals sample_db ?a2) =
     [LatestYearQuery, CarbonQuery (PyStr ''Brazil'') (PyInt 2020) (PyInt 30)]"
    by simp
  have look: "carbon_lookup sample_db (PyStr ''Brazil'') (PyInt 2020) (PyInt 30) = sample_row # []"
    and flux: "less_than_zero (carbon_net_flux_annual_avg sample_row) = Inr True"
    and val: "carbon_net_flux_annual_avg sample_row = PyInt (- 3)"
    by (simp_all add: sample_db_def sample_row_def)
  from t2 look flux
  have "\<exists>response. fst (handle_query_carbon_data sample_externals sample_db ?a2) = Inr response \<and>
     sublist (net_flux_line sample_externals (carbon_net_flux_annual_avg sample_row) True) response"
    by auto
  with 1 2 val show ?thesis by simp
qed

text \<open>
  C8 as stated fails in two ways: a database query is executed on every invocation, the
  guidance path included (the latest-year query), and an invocation without \<open>country\<close>
  raises \<open>KeyError\<close> whatever its threshold is.
\<close>

theorem handle_query_carbon_data_query_counterexample:
  "\<not> in_carbon_thresholds (PyInt 10) \<and>
   snd (handle_query_carbon_data sample_externals sample_db
          [''country'' \<mapsto> PyStr ''Brazil'', ''year'' \<mapsto> PyInt 2020, ''threshold'' \<mapsto> PyInt 10]) =
     [LatestYearQuery] \<and>
   handle_query_carbon_data sample_externals sample_db [''threshold'' \<mapsto> PyInt 10] =
     (Inl (KeyError ''country''), [])"
  by (simp add: handle_query_carbon_data_def get_latest_year_def)

subsection \<open>Properties of execute\_transaction\<close>

lemma run_operations_inside:
  "\<forall>(sql, params) \<in> set operations. \<not> ends_transaction (engine sql (bound_params params)) \<Longrightarrow>
   (case combined_effect engine operations w of
      Inr w' \<Rightarrow> run_operations engine operations \<lparr>stored = d, pending = Some w\<rparr> =
                  (None, \<lparr>stored = d, pending = Some w'\<rparr>)
    | Inl e \<Rightarrow> (\<exists>w'. run_operations engine operations \<lparr>stored = d, pending = Some w\<rparr> =
                  (Some e, \<lparr>stored = d, pending = Some w'\<rparr>)))"
proof (induction operations arbitrary: w)
  case Nil
  then show ?case by simp
next
  case (Cons op rest)
  obtain sql params where op: "op = (sql, params)" by (cases op)
  from Cons.prems op have inside: "\<not> ends_transaction (engine sql (bound_params params))"
    and rest: "\<forall>(sql, params) \<in> set rest. \<not> ends_transaction (engine sql (bound_params params))"
    by simp_all
  note IH = Cons.IH [OF rest]
  show ?case
  proof (cases "engine sql (bound_params params)")
    case Begin
    then show ?thesis by (simp add: op)
  next
    case (Dml f)
    show ?thesis
    proof (cases "f w")
      case (Inl e)
      with Dml show ?thesis by (simp add: op)
    next
      case (Inr w1)
      with Dml IH [of w1] show ?thesis by (auto simp: op split: sum.splits)
    qed
  next
    case (Other f)
    show ?thesis
    proof (cases "f w")
      case (Inl e)
      with Other show ?thesis by (simp add: op)
    next
      case (Inr w1)
      with Other IH [of w1] show ?thesis by (auto simp: op split: sum.splits)
    qed
  qed (use inside in simp_all)
qed

text \<open>
  Where no operation itself ends the transaction (no \<open>COMMIT\<close>, no \<open>ROLLBACK\<close>), the
  operation is all-or-nothing: either every operation succeeds, \<open>True\<close> is returned and
  the database holds the combined effect of the operations, or the error of the first
  failing operation is re-raised and the database is the one before the transaction.
\<close>

lemma execute_transaction_inside_all_or_nothing:
  assumes "\<forall>(sql, params) \<in> set operations.
             \<not> ends_transaction (engine sql (bound_params params))"
  shows "execute_transaction engine operations db =
     (case combined_effect engine operations db of
        Inr db' \<Rightarrow> (Inr True, db')
      | Inl e \<Rightarrow> (Inl e, db))"
proof (cases "combined_effect engine operations db")
  case (Inl e)
  with run_operations_inside [OF assms, of db db]
  obtain w' where "run_operations engine operations \<lparr>stored = db, pending = Some db\<rparr> =
                  (Some e, \<lparr>stored = db, pending = Some w'\<rparr>)"
    by auto
  with Inl show ?thesis
    by (simp add: execute_transaction_def connect_def conn_rollback_def close_connection_def)
next
  case (Inr db')
  with run_operations_inside [OF assms, of db db]
  have "run_operations engine operations \<lparr>stored = db, pending = Some db\<rparr> =
                  (None, \<lparr>stored = db, pending = Some db'\<rparr>)"
    by simp
  with Inr show ?thesis
    by (simp add: execute_transaction_def connect_def conn_commit_def close_connection_def)
qed

lemma execute_transaction_inside_all_or_nothing_example:
  "execute_transaction sample_engine
     [(''INSERT INTO t VALUES (?)'', Some [PyInt 1]), (''INSERT INTO missing VALUES (1)'', None)]
     [PyInt 0] =
     (Inl (SqliteError ''syntax error''), [PyInt 0]) \<and>
   execute_transaction sample_engine
     [(''INSERT INTO t VALUES (?)'', Some [PyInt 1]), (''INSERT INTO t VALUES (?)'', Some [PyInt 2])]
     [PyInt 0] =
     (Inr True, [PyInt 0, PyInt 1, PyInt 2])"
proof -
  let ?bad = "[(''INSERT INTO t VALUES (?)'', Some [PyInt 1]),
               (''INSERT INTO missing VALUES (1)'', None)]"
  let ?good = "[(''INSERT INTO t VALUES (?)'', Some [PyInt 1]),
                (''INSERT INTO t VALUES (?)'', Some [PyInt 2])]"
  have b: "\<forall>(sql, params) \<in> set ?bad.
             \<not> ends_transaction (sample_engine sql (bound_params params))"
    and g: "\<forall>(sql, params) \<in> set ?good.
             \<not> ends_transaction (sample_engine sql (bound_params params))"
    by (simp_all add: sample_engine_def)
  have eb: "combined_effect sample_engine ?bad [PyInt 0] = Inl (SqliteError ''syntax error'')"
    and eg: "combined_effect sample_engine ?good [PyInt 0] = Inr [PyInt 0, PyInt 1, PyInt 2]"
    by (simp_all add: sample_engine_def)
  from execute_transaction_inside_all_or_nothing [OF b, of "[PyInt 0]"] eb
    execute_transaction_inside_all_or_nothing [OF g, of "[PyInt 0]"] eg
  show ?thesis by simp
qed

text \<open>
  C2.  \<open>execute_transaction\<close> is documented as all-or-nothing for every list of
  operations, but it hands each SQL text to the engine unchecked.  On the list made of an
  insert, \<open>COMMIT\<close> and a malformed statement, \<open>COMMIT\<close> ends the transaction and stores
  the inserted row; the malformed statement raises, the rollback finds no open
  transaction, and the error is re-raised with the row still in the database: the
  database is not the one before the transaction.
\<close>

theorem execute_transaction_commit_keeps_row:
  "execute_transaction sample_engine
     [(''INSERT INTO t VALUES (?)'', Some [PyInt 1]), (''COMMIT'', None),
      (''INSERT INTO missing VALUES (1)'', None)]
     [] =
     (Inl (SqliteError ''syntax error''), [PyInt 1]) \<and>
   [PyInt 1] \<noteq> ([] :: pyval list)"
  by (simp add: execute_transaction_def connect_def conn_rollback_def close_connection_def
        sample_engine_def)

subsection \<open>The percentage view after an export\<close>

text \<open>
  C7.  The export path accepts a primary-forest loss greater than the tree-cover loss of
  the same country and year: nothing between the loader and the insert compares the two
  tables.  After exporting tree-cover loss 100 and primary loss 200 for Brazil in 2022
  the view reports the percentage 200, outside the interval from 0 to 100.
\<close>

theorem view_percentage_above_100:
  "export_all_tables
     [\<lparr>tc_country = Some ''Brazil'', tc_year = Some 2022, tc_threshold = Some 30,
       tree_cover_loss_ha = Some 100\<rparr>]
     [\<lparr>pf_country = Some ''Brazil'', pf_year = Some 2022, primary_forest_loss_ha = Some 200\<rparr>]
     empty_tables =
     (None,
      \<lparr>fact_tree_cover_loss =
         [\<lparr>tc_country = Some ''Brazil'', tc_year = Some 2022, tc_threshold = Some 30,
           tree_cover_loss_ha = Some 100\<rparr>],
       fact_primary_forest =
         [\<lparr>pf_country = Some ''Brazil'', pf_year = Some 2022, primary_forest_loss_ha = Some 200\<rparr>]\<rparr>) \<and>
   map v_primary_percentage
     (v_primary_forest_percentage
        \<lparr>fact_tree_cover_loss =
           [\<lparr>tc_country = Some ''Brazil'', tc_year = Some 2022, tc_threshold = Some 30,
             tree_cover_loss_ha = Some 100\<rparr>],
         fact_primary_forest =
           [\<lparr>pf_country = Some ''Brazil'', pf_year = Some 2022, primary_forest_loss_ha = Some 200\<rparr>]\<rparr>) =
     [Some 200] \<and>
   \<not> (200::real) \<le> 100"
  by (simp add: export_all_tables_def export_tree_cover_def export_primary_forest_def
        tree_cover_key_ok_def primary_forest_key_ok_def empty_tables_def
        v_primary_forest_percentage_def join_keys_match_def view_row_def
        primary_percentage_def sql_round2_def)

end
